theory Spec2Isabelle
  imports Main "HOL-Library.Word"
begin

unbundle bit_operations_syntax

section \<open>Machine types\<close>

text \<open>
  The C source works on \<open>unsigned char\<close>, \<open>uint32_t\<close>, \<open>uint64_t\<close> and (on targets
  that define \<open>__SIZEOF_INT128__\<close>) the native \<open>unsigned __int128\<close>.  Flags of type
  \<open>int\<close> that only ever hold 0 or 1 are modelled as 32-bit words as well.
\<close>

type_synonym u8 = "8 word"
type_synonym u32 = "32 word"
type_synonym u64 = "64 word"
type_synonym u128 = "128 word"
type_synonym cint = "32 word"

section \<open>Utilities\<close>

definition secp256k1_read_be32 :: "u8 list \<Rightarrow> nat \<Rightarrow> u32" where
  "secp256k1_read_be32 p i =
     (push_bit 24 (ucast (p ! i)) OR push_bit 16 (ucast (p ! (i + 1))) OR
      push_bit 8 (ucast (p ! (i + 2))) OR ucast (p ! (i + 3)))"

definition secp256k1_write_be32 :: "u32 \<Rightarrow> u8 list" where
  "secp256k1_write_be32 x =
     [ucast (drop_bit 24 x), ucast (drop_bit 16 x), ucast (drop_bit 8 x), ucast x]"

text \<open>\<open>secp256k1_memczero\<close>: every byte is and-ed with the complement of the mask
  \<open>-(unsigned char) flag\<close>.\<close>

definition secp256k1_memczero :: "u8 list \<Rightarrow> cint \<Rightarrow> u8 list" where
  "secp256k1_memczero s flag = (let mask = - (ucast flag :: u8) in map (\<lambda>p. p AND NOT mask) s)"

text \<open>\<open>secp256k1_memcmp_var\<close> returns the first nonzero difference of two byte
  strings of the same length, as a C \<open>int\<close>.\<close>

fun secp256k1_memcmp_var :: "u8 list \<Rightarrow> u8 list \<Rightarrow> int" where
  "secp256k1_memcmp_var (x # xs) (y # ys) =
     (let diff = uint x - uint y in if diff \<noteq> 0 then diff else secp256k1_memcmp_var xs ys)"
| "secp256k1_memcmp_var _ _ = 0"

section \<open>SHA-256\<close>

record secp256k1_sha256 =
  sha_s :: "u32 list"
  sha_buf :: "u8 list"
  sha_bytes :: u64

definition Ch :: "u32 \<Rightarrow> u32 \<Rightarrow> u32 \<Rightarrow> u32" where
  "Ch x y z = z XOR (x AND (y XOR z))"

definition Maj :: "u32 \<Rightarrow> u32 \<Rightarrow> u32 \<Rightarrow> u32" where
  "Maj x y z = (x AND y) OR (z AND (x OR y))"

definition Sigma0 :: "u32 \<Rightarrow> u32" where
  "Sigma0 x = (drop_bit 2 x OR push_bit 30 x) XOR (drop_bit 13 x OR push_bit 19 x) XOR
              (drop_bit 22 x OR push_bit 10 x)"

definition Sigma1 :: "u32 \<Rightarrow> u32" where
  "Sigma1 x = (drop_bit 6 x OR push_bit 26 x) XOR (drop_bit 11 x OR push_bit 21 x) XOR
              (drop_bit 25 x OR push_bit 7 x)"

definition sigma0 :: "u32 \<Rightarrow> u32" where
  "sigma0 x = (drop_bit 7 x OR push_bit 25 x) XOR (drop_bit 18 x OR push_bit 14 x) XOR
              drop_bit 3 x"

definition sigma1 :: "u32 \<Rightarrow> u32" where
  "sigma1 x = (drop_bit 17 x OR push_bit 15 x) XOR (drop_bit 19 x OR push_bit 13 x) XOR
              drop_bit 10 x"

text \<open>The macro \<open>Round(a,b,c,d,e,f,g,h,k,w)\<close> updates its arguments \<open>d\<close> and \<open>h\<close>;
  the function returns the new pair \<open>(d, h)\<close>.\<close>

definition Round :: "u32 \<Rightarrow> u32 \<Rightarrow> u32 \<Rightarrow> u32 \<Rightarrow> u32 \<Rightarrow> u32 \<Rightarrow> u32 \<Rightarrow> u32 \<Rightarrow> u32 \<Rightarrow> u32 \<Rightarrow> u32 \<times> u32" where
  "Round a b c d e f g h k w =
     (let t1 = h + Sigma1 e + Ch e f g + k + w;
          t2 = Sigma0 a + Maj a b c
      in (d + t1, t1 + t2))"

definition secp256k1_sha256_initialize :: "secp256k1_sha256 \<Rightarrow> secp256k1_sha256" where
  "secp256k1_sha256_initialize hash =
     hash\<lparr>sha_s := [0x6a09e667, 0xbb67ae85, 0x3c6ef372, 0xa54ff53a,
                     0x510e527f, 0x9b05688c, 0x1f83d9ab, 0x5be0cd19],
           sha_bytes := 0\<rparr>"

definition secp256k1_sha256_transform :: "u32 list \<Rightarrow> u8 list \<Rightarrow> u32 list" where
  "secp256k1_sha256_transform s buf =
     (let a = s ! 0; b = s ! 1; c = s ! 2; d = s ! 3;
          e = s ! 4; f = s ! 5; g = s ! 6; h = s ! 7;
      w0 = secp256k1_read_be32 buf 0;
      r = Round a b c d e f g h 0x428a2f98 w0; d = fst r; h = snd r;
      w1 = secp256k1_read_be32 buf 4;
      r = Round h a b c d e f g 0x71374491 w1; c = fst r; g = snd r;
      w2 = secp256k1_read_be32 buf 8;
      r = Round g h a b c d e f 0xb5c0fbcf w2; b = fst r; f = snd r;
      w3 = secp256k1_read_be32 buf 12;
      r = Round f g h a b c d e 0xe9b5dba5 w3; a = fst r; e = snd r;
      w4 = secp256k1_read_be32 buf 16;
      r = Round e f g h a b c d 0x3956c25b w4; h = fst r; d = snd r;
      w5 = secp256k1_read_be32 buf 20;
      r = Round d e f g h a b c 0x59f111f1 w5; g = fst r; c = snd r;
      w6 = secp256k1_read_be32 buf 24;
      r = Round c d e f g h a b 0x923f82a4 w6; f = fst r; b = snd r;
      w7 = secp256k1_read_be32 buf 28;
      r = Round b c d e f g h a 0xab1c5ed5 w7; e = fst r; a = snd r;
      w8 = secp256k1_read_be32 buf 32;
      r = Round a b c d e f g h 0xd807aa98 w8; d = fst r; h = snd r;
      w9 = secp256k1_read_be32 buf 36;
      r = Round h a b c d e f g 0x12835b01 w9; c = fst r; g = snd r;
      w10 = secp256k1_read_be32 buf 40;
      r = Round g h a b c d e f 0x243185be w10; b = fst r; f = snd r;
      w11 = secp256k1_read_be32 buf 44;
      r = Round f g h a b c d e 0x550c7dc3 w11; a = fst r; e = snd r;
      w12 = secp256k1_read_be32 buf 48;
      r = Round e f g h a b c d 0x72be5d74 w12; h = fst r; d = snd r;
      w13 = secp256k1_read_be32 buf 52;
      r = Round d e f g h a b c 0x80deb1fe w13; g = fst r; c = snd r;
      w14 = secp256k1_read_be32 buf 56;
      r = Round c d e f g h a b 0x9bdc06a7 w14; f = fst r; b = snd r;
      w15 = secp256k1_read_be32 buf 60;
      r = Round b c d e f g h a 0xc19bf174 w15; e = fst r; a = snd r;
      w0 = w0 + (sigma1 w14 + w9 + sigma0 w1);
      r = Round a b c d e f g h 0xe49b69c1 w0; d = fst r; h = snd r;
      w1 = w1 + (sigma1 w15 + w10 + sigma0 w2);
      r = Round h a b c d e f g 0xefbe4786 w1; c = fst r; g = snd r;
      w2 = w2 + (sigma1 w0 + w11 + sigma0 w3);
      r = Round g h a b c d e f 0x0fc19dc6 w2; b = fst r; f = snd r;
      w3 = w3 + (sigma1 w1 + w12 + sigma0 w4);
      r = Round f g h a b c d e 0x240ca1cc w3; a = fst r; e = snd r;
      w4 = w4 + (sigma1 w2 + w13 + sigma0 w5);
      r = Round e f g h a b c d 0x2de92c6f w4; h = fst r; d = snd r;
      w5 = w5 + (sigma1 w3 + w14 + sigma0 w6);
      r = Round d e f g h a b c 0x4a7484aa w5; g = fst r; c = snd r;
      w6 = w6 + (sigma1 w4 + w15 + sigma0 w7);
      r = Round c d e f g h a b 0x5cb0a9dc w6; f = fst r; b = snd r;
      w7 = w7 + (sigma1 w5 + w0 + sigma0 w8);
      r = Round b c d e f g h a 0x76f988da w7; e = fst r; a = snd r;
      w8 = w8 + (sigma1 w6 + w1 + sigma0 w9);
      r = Round a b c d e f g h 0x983e5152 w8; d = fst r; h = snd r;
      w9 = w9 + (sigma1 w7 + w2 + sigma0 w10);
      r = Round h a b c d e f g 0xa831c66d w9; c = fst r; g = snd r;
      w10 = w10 + (sigma1 w8 + w3 + sigma0 w11);
      r = Round g h a b c d e f 0xb00327c8 w10; b = fst r; f = snd r;
      w11 = w11 + (sigma1 w9 + w4 + sigma0 w12);
      r = Round f g h a b c d e 0xbf597fc7 w11; a = fst r; e = snd r;
      w12 = w12 + (sigma1 w10 + w5 + sigma0 w13);
      r = Round e f g h a b c d 0xc6e00bf3 w12; h = fst r; d = snd r;
      w13 = w13 + (sigma1 w11 + w6 + sigma0 w14);
      r = Round d e f g h a b c 0xd5a79147 w13; g = fst r; c = snd r;
      w14 = w14 + (sigma1 w12 + w7 + sigma0 w15);
      r = Round c d e f g h a b 0x06ca6351 w14; f = fst r; b = snd r;
      w15 = w15 + (sigma1 w13 + w8 + sigma0 w0);
      r = Round b c d e f g h a 0x14292967 w15; e = fst r; a = snd r;
      w0 = w0 + (sigma1 w14 + w9 + sigma0 w1);
      r = Round a b c d e f g h 0x27b70a85 w0; d = fst r; h = snd r;
      w1 = w1 + (sigma1 w15 + w10 + sigma0 w2);
      r = Round h a b c d e f g 0x2e1b2138 w1; c = fst r; g = snd r;
      w2 = w2 + (sigma1 w0 + w11 + sigma0 w3);
      r = Round g h a b c d e f 0x4d2c6dfc w2; b = fst r; f = snd r;
      w3 = w3 + (sigma1 w1 + w12 + sigma0 w4);
      r = Round f g h a b c d e 0x53380d13 w3; a = fst r; e = snd r;
      w4 = w4 + (sigma1 w2 + w13 + sigma0 w5);
      r = Round e f g h a b c d 0x650a7354 w4; h = fst r; d = snd r;
      w5 = w5 + (sigma1 w3 + w14 + sigma0 w6);
      r = Round d e f g h a b c 0x766a0abb w5; g = fst r; c = snd r;
      w6 = w6 + (sigma1 w4 + w15 + sigma0 w7);
      r = Round c d e f g h a b 0x81c2c92e w6; f = fst r; b = snd r;
      w7 = w7 + (sigma1 w5 + w0 + sigma0 w8);
      r = Round b c d e f g h a 0x92722c85 w7; e = fst r; a = snd r;
      w8 = w8 + (sigma1 w6 + w1 + sigma0 w9);
      r = Round a b c d e f g h 0xa2bfe8a1 w8; d = fst r; h = snd r;
      w9 = w9 + (sigma1 w7 + w2 + sigma0 w10);
      r = Round h a b c d e f g 0xa81a664b w9; c = fst r; g = snd r;
      w10 = w10 + (sigma1 w8 + w3 + sigma0 w11);
      r = Round g h a b c d e f 0xc24b8b70 w10; b = fst r; f = snd r;
      w11 = w11 + (sigma1 w9 + w4 + sigma0 w12);
      r = Round f g h a b c d e 0xc76c51a3 w11; a = fst r; e = snd r;
      w12 = w12 + (sigma1 w10 + w5 + sigma0 w13);
      r = Round e f g h a b c d 0xd192e819 w12; h = fst r; d = snd r;
      w13 = w13 + (sigma1 w11 + w6 + sigma0 w14);
      r = Round d e f g h a b c 0xd6990624 w13; g = fst r; c = snd r;
      w14 = w14 + (sigma1 w12 + w7 + sigma0 w15);
      r = Round c d e f g h a b 0xf40e3585 w14; f = fst r; b = snd r;
      w15 = w15 + (sigma1 w13 + w8 + sigma0 w0);
      r = Round b c d e f g h a 0x106aa070 w15; e = fst r; a = snd r;
      w0 = w0 + (sigma1 w14 + w9 + sigma0 w1);
      r = Round a b c d e f g h 0x19a4c116 w0; d = fst r; h = snd r;
      w1 = w1 + (sigma1 w15 + w10 + sigma0 w2);
      r = Round h a b c d e f g 0x1e376c08 w1; c = fst r; g = snd r;
      w2 = w2 + (sigma1 w0 + w11 + sigma0 w3);
      r = Round g h a b c d e f 0x2748774c w2; b = fst r; f = snd r;
      w3 = w3 + (sigma1 w1 + w12 + sigma0 w4);
      r = Round f g h a b c d e 0x34b0bcb5 w3; a = fst r; e = snd r;
      w4 = w4 + (sigma1 w2 + w13 + sigma0 w5);
      r = Round e f g h a b c d 0x391c0cb3 w4; h = fst r; d = snd r;
      w5 = w5 + (sigma1 w3 + w14 + sigma0 w6);
      r = Round d e f g h a b c 0x4ed8aa4a w5; g = fst r; c = snd r;
      w6 = w6 + (sigma1 w4 + w15 + sigma0 w7);
      r = Round c d e f g h a b 0x5b9cca4f w6; f = fst r; b = snd r;
      w7 = w7 + (sigma1 w5 + w0 + sigma0 w8);
      r = Round b c d e f g h a 0x682e6ff3 w7; e = fst r; a = snd r;
      w8 = w8 + (sigma1 w6 + w1 + sigma0 w9);
      r = Round a b c d e f g h 0x748f82ee w8; d = fst r; h = snd r;
      w9 = w9 + (sigma1 w7 + w2 + sigma0 w10);
      r = Round h a b c d e f g 0x78a5636f w9; c = fst r; g = snd r;
      w10 = w10 + (sigma1 w8 + w3 + sigma0 w11);
      r = Round g h a b c d e f 0x84c87814 w10; b = fst r; f = snd r;
      w11 = w11 + (sigma1 w9 + w4 + sigma0 w12);
      r = Round f g h a b c d e 0x8cc70208 w11; a = fst r; e = snd r;
      w12 = w12 + (sigma1 w10 + w5 + sigma0 w13);
      r = Round e f g h a b c d 0x90befffa w12; h = fst r; d = snd r;
      w13 = w13 + (sigma1 w11 + w6 + sigma0 w14);
      r = Round d e f g h a b c 0xa4506ceb w13; g = fst r; c = snd r;
      w14 = w14 + (sigma1 w12 + w7 + sigma0 w15);
      r = Round c d e f g h a b 0xbef9a3f7 w14; f = fst r; b = snd r;
      w15 = w15 + (sigma1 w13 + w8 + sigma0 w0);
      r = Round b c d e f g h a 0xc67178f2 w15; e = fst r; a = snd r
      in [s ! 0 + a, s ! 1 + b, s ! 2 + c, s ! 3 + d,
          s ! 4 + e, s ! 5 + f, s ! 6 + g, s ! 7 + h])"

text \<open>The loop of \<open>secp256k1_sha256_write\<close>.  \<open>bufsize\<close> is \<open>hash->bytes & 0x3F\<close> on
  entry and 0 after the first block, hence always below 64; the model states this bound
  in the loop condition so that the recursion is total.\<close>

function sha256_write_loop :: "u32 list \<Rightarrow> u8 list \<Rightarrow> nat \<Rightarrow> u8 list \<Rightarrow> u32 list \<times> u8 list" where
  "sha256_write_loop s buf bufsize data =
     (if bufsize < 64 \<and> 64 - bufsize \<le> length data then
        (let chunk_len = 64 - bufsize;
             buf' = take bufsize buf @ take chunk_len data @ drop (bufsize + chunk_len) buf;
             s' = secp256k1_sha256_transform s buf'
         in sha256_write_loop s' buf' 0 (drop chunk_len data))
      else
        (s, if data \<noteq> [] then take bufsize buf @ data @ drop (bufsize + length data) buf
            else buf))"
  by pat_completeness auto
termination
  by (relation "measure (\<lambda>(s, buf, bufsize, data). length data)") auto

definition secp256k1_sha256_write :: "secp256k1_sha256 \<Rightarrow> u8 list \<Rightarrow> secp256k1_sha256" where
  "secp256k1_sha256_write hash data =
     (let bufsize = unat (sha_bytes hash AND 0x3F);
          sb = sha256_write_loop (sha_s hash) (sha_buf hash) bufsize data
      in hash\<lparr>sha_s := fst sb, sha_buf := snd sb,
               sha_bytes := sha_bytes hash + of_nat (length data)\<rparr>)"

definition sha256_pad :: "u8 list" where
  "sha256_pad = 0x80 # replicate 63 0"

definition secp256k1_sha256_finalize :: "secp256k1_sha256 \<Rightarrow> secp256k1_sha256 \<times> u8 list" where
  "secp256k1_sha256_finalize hash =
     (let sizedesc = secp256k1_write_be32 (ucast (drop_bit 29 (sha_bytes hash))) @
                     secp256k1_write_be32 (ucast (push_bit 3 (sha_bytes hash)));
          hash1 = secp256k1_sha256_write hash
                    (take (1 + ((119 - unat (sha_bytes hash) mod 64) mod 64)) sha256_pad);
          hash2 = secp256k1_sha256_write hash1 sizedesc;
          out32 = concat (map secp256k1_write_be32 (sha_s hash2))
      in (hash2\<lparr>sha_s := replicate 8 0\<rparr>, out32))"

definition secp256k1_sha256_initialize_tagged :: "secp256k1_sha256 \<Rightarrow> u8 list \<Rightarrow> secp256k1_sha256" where
  "secp256k1_sha256_initialize_tagged hash tag =
     (let hash1 = secp256k1_sha256_initialize hash;
          hash2 = secp256k1_sha256_write hash1 tag;
          fin = secp256k1_sha256_finalize hash2;
          hash3 = fst fin;
          buf = snd fin;
          hash4 = secp256k1_sha256_initialize hash3;
          hash5 = secp256k1_sha256_write hash4 buf
      in secp256k1_sha256_write hash5 buf)"

section \<open>Scalar constants and 64-bit big-endian access\<close>

definition SECP256K1_N_0 :: u64 where "SECP256K1_N_0 = 0xBFD25E8CD0364141"
definition SECP256K1_N_1 :: u64 where "SECP256K1_N_1 = 0xBAAEDCE6AF48A03B"
definition SECP256K1_N_2 :: u64 where "SECP256K1_N_2 = 0xFFFFFFFFFFFFFFFE"
definition SECP256K1_N_3 :: u64 where "SECP256K1_N_3 = 0xFFFFFFFFFFFFFFFF"
definition SECP256K1_N_C_0 :: u64 where "SECP256K1_N_C_0 = NOT SECP256K1_N_0 + 1"
definition SECP256K1_N_C_1 :: u64 where "SECP256K1_N_C_1 = NOT SECP256K1_N_1"
definition SECP256K1_N_C_2 :: u32 where "SECP256K1_N_C_2 = 1"

definition secp256k1_read_be64 :: "u8 list \<Rightarrow> nat \<Rightarrow> u64" where
  "secp256k1_read_be64 p i =
     (push_bit 56 (ucast (p ! i)) OR push_bit 48 (ucast (p ! (i + 1))) OR
      push_bit 40 (ucast (p ! (i + 2))) OR push_bit 32 (ucast (p ! (i + 3))) OR
      push_bit 24 (ucast (p ! (i + 4))) OR push_bit 16 (ucast (p ! (i + 5))) OR
      push_bit 8 (ucast (p ! (i + 6))) OR ucast (p ! (i + 7)))"

definition secp256k1_write_be64 :: "u64 \<Rightarrow> u8 list" where
  "secp256k1_write_be64 x =
     [ucast (drop_bit 56 x), ucast (drop_bit 48 x), ucast (drop_bit 40 x),
      ucast (drop_bit 32 x), ucast (drop_bit 24 x), ucast (drop_bit 16 x),
      ucast (drop_bit 8 x), ucast x]"

section \<open>128-bit helpers\<close>

text \<open>The source has two implementations of \<open>secp256k1_uint128\<close>; the one compiled
  when the compiler provides \<open>__int128\<close> (every 64-bit GCC and Clang target) is the
  native one, which is modelled here.\<close>

definition secp256k1_u128_from_u64 :: "u64 \<Rightarrow> u128" where
  "secp256k1_u128_from_u64 a = ucast a"

definition secp256k1_u128_accum_u64 :: "u128 \<Rightarrow> u64 \<Rightarrow> u128" where
  "secp256k1_u128_accum_u64 r a = r + ucast a"

definition secp256k1_u128_rshift :: "u128 \<Rightarrow> nat \<Rightarrow> u128" where
  "secp256k1_u128_rshift r n = drop_bit n r"

definition secp256k1_u128_to_u64 :: "u128 \<Rightarrow> u64" where
  "secp256k1_u128_to_u64 a = ucast a"

definition secp256k1_u128_hi_u64 :: "u128 \<Rightarrow> u64" where
  "secp256k1_u128_hi_u64 a = ucast (drop_bit 64 a)"

definition secp256k1_u128_mul :: "u64 \<Rightarrow> u64 \<Rightarrow> u128" where
  "secp256k1_u128_mul a b = ucast a * ucast b"

definition secp256k1_u128_accum_mul :: "u128 \<Rightarrow> u64 \<Rightarrow> u64 \<Rightarrow> u128" where
  "secp256k1_u128_accum_mul r a b = r + ucast a * ucast b"

section \<open>Scalar operations\<close>

record secp256k1_scalar =
  sd0 :: u64
  sd1 :: u64
  sd2 :: u64
  sd3 :: u64

definition secp256k1_scalar_one :: secp256k1_scalar where
  "secp256k1_scalar_one = \<lparr>sd0 = push_bit 32 0 OR 1, sd1 = push_bit 32 0 OR 0,
                                sd2 = push_bit 32 0 OR 0, sd3 = push_bit 32 0 OR 0\<rparr>"

definition secp256k1_scalar_zero :: secp256k1_scalar where
  "secp256k1_scalar_zero = \<lparr>sd0 = push_bit 32 0 OR 0, sd1 = push_bit 32 0 OR 0,
                                 sd2 = push_bit 32 0 OR 0, sd3 = push_bit 32 0 OR 0\<rparr>"

definition secp256k1_scalar_check_overflow :: "secp256k1_scalar \<Rightarrow> cint" where
  "secp256k1_scalar_check_overflow a =
     (let yes = 0;
          no = 0;
          no = no OR of_bool (sd3 a < SECP256K1_N_3);
          no = no OR of_bool (sd2 a < SECP256K1_N_2);
          yes = yes OR (of_bool (sd2 a > SECP256K1_N_2) AND NOT no);
          no = no OR of_bool (sd1 a < SECP256K1_N_1);
          yes = yes OR (of_bool (sd1 a > SECP256K1_N_1) AND NOT no);
          yes = yes OR (of_bool (sd0 a \<ge> SECP256K1_N_0) AND NOT no)
      in yes)"

definition secp256k1_scalar_reduce :: "secp256k1_scalar \<Rightarrow> u32 \<Rightarrow> secp256k1_scalar \<times> cint" where
  "secp256k1_scalar_reduce r overflow =
     (let t = secp256k1_u128_from_u64 (sd0 r);
          t = secp256k1_u128_accum_u64 t (ucast overflow * SECP256K1_N_C_0);
          r0 = secp256k1_u128_to_u64 t; t = secp256k1_u128_rshift t 64;
          t = secp256k1_u128_accum_u64 t (sd1 r);
          t = secp256k1_u128_accum_u64 t (ucast overflow * SECP256K1_N_C_1);
          r1 = secp256k1_u128_to_u64 t; t = secp256k1_u128_rshift t 64;
          t = secp256k1_u128_accum_u64 t (sd2 r);
          t = secp256k1_u128_accum_u64 t (ucast (overflow * SECP256K1_N_C_2));
          r2 = secp256k1_u128_to_u64 t; t = secp256k1_u128_rshift t 64;
          t = secp256k1_u128_accum_u64 t (sd3 r);
          r3 = secp256k1_u128_to_u64 t
      in (\<lparr>sd0 = r0, sd1 = r1, sd2 = r2, sd3 = r3\<rparr>, overflow))"

text \<open>\<open>secp256k1_scalar_set_b32\<close> returns the scalar together with the overflow flag
  (the caller may pass a null \<open>overflow\<close> pointer and ignore it).\<close>

definition secp256k1_scalar_set_b32 :: "u8 list \<Rightarrow> secp256k1_scalar \<times> cint" where
  "secp256k1_scalar_set_b32 b32 =
     (let r = \<lparr>sd0 = secp256k1_read_be64 b32 24, sd1 = secp256k1_read_be64 b32 16,
                sd2 = secp256k1_read_be64 b32 8, sd3 = secp256k1_read_be64 b32 0\<rparr>
      in secp256k1_scalar_reduce r (secp256k1_scalar_check_overflow r))"

definition secp256k1_scalar_get_b32 :: "secp256k1_scalar \<Rightarrow> u8 list" where
  "secp256k1_scalar_get_b32 a =
     secp256k1_write_be64 (sd3 a) @ secp256k1_write_be64 (sd2 a) @
     secp256k1_write_be64 (sd1 a) @ secp256k1_write_be64 (sd0 a)"

definition secp256k1_scalar_is_zero :: "secp256k1_scalar \<Rightarrow> cint" where
  "secp256k1_scalar_is_zero a = of_bool ((sd0 a OR sd1 a OR sd2 a OR sd3 a) = 0)"

definition secp256k1_scalar_negate :: "secp256k1_scalar \<Rightarrow> secp256k1_scalar" where
  "secp256k1_scalar_negate a =
     (let nonzero = 0xFFFFFFFFFFFFFFFF * of_bool (secp256k1_scalar_is_zero a = 0);
          t = secp256k1_u128_from_u64 (NOT (sd0 a));
          t = secp256k1_u128_accum_u64 t (SECP256K1_N_0 + 1);
          r0 = secp256k1_u128_to_u64 t AND nonzero; t = secp256k1_u128_rshift t 64;
          t = secp256k1_u128_accum_u64 t (NOT (sd1 a));
          t = secp256k1_u128_accum_u64 t SECP256K1_N_1;
          r1 = secp256k1_u128_to_u64 t AND nonzero; t = secp256k1_u128_rshift t 64;
          t = secp256k1_u128_accum_u64 t (NOT (sd2 a));
          t = secp256k1_u128_accum_u64 t SECP256K1_N_2;
          r2 = secp256k1_u128_to_u64 t AND nonzero; t = secp256k1_u128_rshift t 64;
          t = secp256k1_u128_accum_u64 t (NOT (sd3 a));
          t = secp256k1_u128_accum_u64 t SECP256K1_N_3;
          r3 = secp256k1_u128_to_u64 t AND nonzero
      in \<lparr>sd0 = r0, sd1 = r1, sd2 = r2, sd3 = r3\<rparr>)"

definition secp256k1_scalar_add :: "secp256k1_scalar \<Rightarrow> secp256k1_scalar \<Rightarrow> secp256k1_scalar \<times> cint" where
  "secp256k1_scalar_add a b =
     (let t = secp256k1_u128_from_u64 (sd0 a);
          t = secp256k1_u128_accum_u64 t (sd0 b);
          r0 = secp256k1_u128_to_u64 t; t = secp256k1_u128_rshift t 64;
          t = secp256k1_u128_accum_u64 t (sd1 a);
          t = secp256k1_u128_accum_u64 t (sd1 b);
          r1 = secp256k1_u128_to_u64 t; t = secp256k1_u128_rshift t 64;
          t = secp256k1_u128_accum_u64 t (sd2 a);
          t = secp256k1_u128_accum_u64 t (sd2 b);
          r2 = secp256k1_u128_to_u64 t; t = secp256k1_u128_rshift t 64;
          t = secp256k1_u128_accum_u64 t (sd3 a);
          t = secp256k1_u128_accum_u64 t (sd3 b);
          r3 = secp256k1_u128_to_u64 t; t = secp256k1_u128_rshift t 64;
          r = \<lparr>sd0 = r0, sd1 = r1, sd2 = r2, sd3 = r3\<rparr>;
          overflow = ucast (secp256k1_u128_to_u64 t + scast (secp256k1_scalar_check_overflow r))
      in (fst (secp256k1_scalar_reduce r overflow), overflow))"

definition secp256k1_scalar_clear :: "secp256k1_scalar \<Rightarrow> secp256k1_scalar" where
  "secp256k1_scalar_clear r = \<lparr>sd0 = 0, sd1 = 0, sd2 = 0, sd3 = 0\<rparr>"

definition secp256k1_scalar_set_b32_seckey :: "u8 list \<Rightarrow> secp256k1_scalar \<times> cint" where
  "secp256k1_scalar_set_b32_seckey bin =
     (let ro = secp256k1_scalar_set_b32 bin;
          r = fst ro;
          overflow = snd ro
      in (r, of_bool (overflow = 0) AND of_bool (secp256k1_scalar_is_zero r = 0)))"

definition secp256k1_scalar_cmov :: "secp256k1_scalar \<Rightarrow> secp256k1_scalar \<Rightarrow> cint \<Rightarrow> secp256k1_scalar" where
  "secp256k1_scalar_cmov r a flag =
     (let mask0 = scast flag + NOT (0 :: u64);
          mask1 = NOT mask0
      in \<lparr>sd0 = (sd0 r AND mask0) OR (sd0 a AND mask1),
           sd1 = (sd1 r AND mask0) OR (sd1 a AND mask1),
           sd2 = (sd2 r AND mask0) OR (sd2 a AND mask1),
           sd3 = (sd3 r AND mask0) OR (sd3 a AND mask1)\<rparr>)"

subsection \<open>Scalar multiplication\<close>

text \<open>The macros \<open>muladd\<close>, \<open>muladd_fast\<close>, \<open>sumadd\<close>, \<open>sumadd_fast\<close>, \<open>extract\<close> and
  \<open>extract_fast\<close> work on the local accumulator \<open>(c0, c1, c2)\<close>, where \<open>c0\<close> and \<open>c1\<close>
  are \<open>uint64_t\<close> and \<open>c2\<close> is \<open>uint32_t\<close>.\<close>

record acc3 =
  ac0 :: u64
  ac1 :: u64
  ac2 :: u32

definition muladd :: "u64 \<Rightarrow> u64 \<Rightarrow> acc3 \<Rightarrow> acc3" where
  "muladd a b s =
     (let t = secp256k1_u128_mul a b;
          th = secp256k1_u128_hi_u64 t;
          tl = secp256k1_u128_to_u64 t;
          c0 = ac0 s + tl;
          th = th + of_bool (c0 < tl);
          c1 = ac1 s + th;
          c2 = ac2 s + of_bool (c1 < th)
      in \<lparr>ac0 = c0, ac1 = c1, ac2 = c2\<rparr>)"

definition muladd_fast :: "u64 \<Rightarrow> u64 \<Rightarrow> acc3 \<Rightarrow> acc3" where
  "muladd_fast a b s =
     (let t = secp256k1_u128_mul a b;
          th = secp256k1_u128_hi_u64 t;
          tl = secp256k1_u128_to_u64 t;
          c0 = ac0 s + tl;
          th = th + of_bool (c0 < tl);
          c1 = ac1 s + th
      in \<lparr>ac0 = c0, ac1 = c1, ac2 = ac2 s\<rparr>)"

definition sumadd :: "u64 \<Rightarrow> acc3 \<Rightarrow> acc3" where
  "sumadd a s =
     (let c0 = ac0 s + a;
          over = (of_bool (c0 < a) :: u32);
          c1 = ac1 s + ucast over;
          c2 = ac2 s + of_bool (c1 < ucast over)
      in \<lparr>ac0 = c0, ac1 = c1, ac2 = c2\<rparr>)"

definition sumadd_fast :: "u64 \<Rightarrow> acc3 \<Rightarrow> acc3" where
  "sumadd_fast a s =
     (let c0 = ac0 s + a;
          c1 = ac1 s + of_bool (c0 < a)
      in \<lparr>ac0 = c0, ac1 = c1, ac2 = ac2 s\<rparr>)"

text \<open>\<open>extract(n)\<close> and \<open>extract_fast(n)\<close> assign the low limb to \<open>n\<close> and shift the
  accumulator; the functions return the new accumulator, the limb is \<open>ac0\<close> of the old one.\<close>

definition extract_acc :: "acc3 \<Rightarrow> acc3" where
  "extract_acc s = \<lparr>ac0 = ac1 s, ac1 = ucast (ac2 s), ac2 = 0\<rparr>"

definition extract_fast :: "acc3 \<Rightarrow> acc3" where
  "extract_fast s = \<lparr>ac0 = ac1 s, ac1 = 0, ac2 = ac2 s\<rparr>"

definition secp256k1_scalar_mul_512 :: "secp256k1_scalar \<Rightarrow> secp256k1_scalar \<Rightarrow> u64 list" where
  "secp256k1_scalar_mul_512 a b =
     (let s = \<lparr>ac0 = 0, ac1 = 0, ac2 = 0\<rparr>;
          s = muladd_fast (sd0 a) (sd0 b) s;
          l0 = ac0 s; s = extract_fast s;
          s = muladd (sd0 a) (sd1 b) s;
          s = muladd (sd1 a) (sd0 b) s;
          l1 = ac0 s; s = extract_acc s;
          s = muladd (sd0 a) (sd2 b) s;
          s = muladd (sd1 a) (sd1 b) s;
          s = muladd (sd2 a) (sd0 b) s;
          l2 = ac0 s; s = extract_acc s;
          s = muladd (sd0 a) (sd3 b) s;
          s = muladd (sd1 a) (sd2 b) s;
          s = muladd (sd2 a) (sd1 b) s;
          s = muladd (sd3 a) (sd0 b) s;
          l3 = ac0 s; s = extract_acc s;
          s = muladd (sd1 a) (sd3 b) s;
          s = muladd (sd2 a) (sd2 b) s;
          s = muladd (sd3 a) (sd1 b) s;
          l4 = ac0 s; s = extract_acc s;
          s = muladd (sd2 a) (sd3 b) s;
          s = muladd (sd3 a) (sd2 b) s;
          l5 = ac0 s; s = extract_acc s;
          s = muladd_fast (sd3 a) (sd3 b) s;
          l6 = ac0 s; s = extract_fast s;
          l7 = ac0 s
      in [l0, l1, l2, l3, l4, l5, l6, l7])"

definition secp256k1_scalar_reduce_512 :: "u64 list \<Rightarrow> secp256k1_scalar" where
  "secp256k1_scalar_reduce_512 l =
     (let n0 = l ! 4; n1 = l ! 5; n2 = l ! 6; n3 = l ! 7;
          s = \<lparr>ac0 = l ! 0, ac1 = 0, ac2 = 0\<rparr>;
          s = muladd_fast n0 SECP256K1_N_C_0 s;
          m0 = ac0 s; s = extract_fast s;
          s = sumadd_fast (l ! 1) s;
          s = muladd n1 SECP256K1_N_C_0 s;
          s = muladd n0 SECP256K1_N_C_1 s;
          m1 = ac0 s; s = extract_acc s;
          s = sumadd (l ! 2) s;
          s = muladd n2 SECP256K1_N_C_0 s;
          s = muladd n1 SECP256K1_N_C_1 s;
          s = sumadd n0 s;
          m2 = ac0 s; s = extract_acc s;
          s = sumadd (l ! 3) s;
          s = muladd n3 SECP256K1_N_C_0 s;
          s = muladd n2 SECP256K1_N_C_1 s;
          s = sumadd n1 s;
          m3 = ac0 s; s = extract_acc s;
          s = muladd n3 SECP256K1_N_C_1 s;
          s = sumadd n2 s;
          m4 = ac0 s; s = extract_acc s;
          s = sumadd_fast n3 s;
          m5 = ac0 s; s = extract_fast s;
          m6 = (ucast (ac0 s) :: u32);
          s = \<lparr>ac0 = m0, ac1 = 0, ac2 = 0\<rparr>;
          s = muladd_fast m4 SECP256K1_N_C_0 s;
          p0 = ac0 s; s = extract_fast s;
          s = sumadd_fast m1 s;
          s = muladd m5 SECP256K1_N_C_0 s;
          s = muladd m4 SECP256K1_N_C_1 s;
          p1 = ac0 s; s = extract_acc s;
          s = sumadd m2 s;
          s = muladd (ucast m6) SECP256K1_N_C_0 s;
          s = muladd m5 SECP256K1_N_C_1 s;
          s = sumadd m4 s;
          p2 = ac0 s; s = extract_acc s;
          s = sumadd_fast m3 s;
          s = muladd_fast (ucast m6) SECP256K1_N_C_1 s;
          s = sumadd_fast m5 s;
          p3 = ac0 s; s = extract_fast s;
          p4 = (ucast (ac0 s + ucast m6) :: u32);
          c128 = secp256k1_u128_from_u64 p0;
          c128 = secp256k1_u128_accum_mul c128 SECP256K1_N_C_0 (ucast p4);
          r0 = secp256k1_u128_to_u64 c128; c128 = secp256k1_u128_rshift c128 64;
          c128 = secp256k1_u128_accum_u64 c128 p1;
          c128 = secp256k1_u128_accum_mul c128 SECP256K1_N_C_1 (ucast p4);
          r1 = secp256k1_u128_to_u64 c128; c128 = secp256k1_u128_rshift c128 64;
          c128 = secp256k1_u128_accum_u64 c128 p2;
          c128 = secp256k1_u128_accum_u64 c128 (ucast p4);
          r2 = secp256k1_u128_to_u64 c128; c128 = secp256k1_u128_rshift c128 64;
          c128 = secp256k1_u128_accum_u64 c128 p3;
          r3 = secp256k1_u128_to_u64 c128;
          c = secp256k1_u128_hi_u64 c128;
          r = \<lparr>sd0 = r0, sd1 = r1, sd2 = r2, sd3 = r3\<rparr>
      in fst (secp256k1_scalar_reduce r (ucast (c + scast (secp256k1_scalar_check_overflow r)))))"

definition secp256k1_scalar_mul :: "secp256k1_scalar \<Rightarrow> secp256k1_scalar \<Rightarrow> secp256k1_scalar" where
  "secp256k1_scalar_mul a b = secp256k1_scalar_reduce_512 (secp256k1_scalar_mul_512 a b)"

section \<open>Field elements (5 limbs of 52 bits)\<close>

record secp256k1_fe =
  fn0 :: u64
  fn1 :: u64
  fn2 :: u64
  fn3 :: u64
  fn4 :: u64

definition secp256k1_fe_clear :: "secp256k1_fe \<Rightarrow> secp256k1_fe" where
  "secp256k1_fe_clear a = \<lparr>fn0 = 0, fn1 = 0, fn2 = 0, fn3 = 0, fn4 = 0\<rparr>"

text \<open>\<open>secp256k1_fe_set_int\<close> takes a C \<open>int\<close>, converted to \<open>uint64_t\<close> on assignment.\<close>

definition secp256k1_fe_set_int :: "cint \<Rightarrow> secp256k1_fe" where
  "secp256k1_fe_set_int a = \<lparr>fn0 = scast a, fn1 = 0, fn2 = 0, fn3 = 0, fn4 = 0\<rparr>"

definition secp256k1_fe_is_zero :: "secp256k1_fe \<Rightarrow> cint" where
  "secp256k1_fe_is_zero a = of_bool ((fn0 a OR fn1 a OR fn2 a OR fn3 a OR fn4 a) = 0)"

definition secp256k1_fe_is_odd :: "secp256k1_fe \<Rightarrow> cint" where
  "secp256k1_fe_is_odd a = ucast (fn0 a AND 1)"

definition secp256k1_fe_normalize_var :: "secp256k1_fe \<Rightarrow> secp256k1_fe" where
  "secp256k1_fe_normalize_var r =
     (let t0 = fn0 r; t1 = fn1 r; t2 = fn2 r; t3 = fn3 r; t4 = fn4 r;
          x = drop_bit 48 t4; t4 = t4 AND 0x0FFFFFFFFFFFF;
          t0 = t0 + x * 0x1000003D1;
          t1 = t1 + drop_bit 52 t0; t0 = t0 AND 0xFFFFFFFFFFFFF; m = t1;
          t2 = t2 + drop_bit 52 t1; t1 = t1 AND 0xFFFFFFFFFFFFF; m = m AND t2;
          t3 = t3 + drop_bit 52 t2; t2 = t2 AND 0xFFFFFFFFFFFFF; m = m AND t3;
          t4 = t4 + drop_bit 52 t3; t3 = t3 AND 0xFFFFFFFFFFFFF; m = m AND t4;
          x = drop_bit 48 t4 OR (of_bool (t4 = 0x0FFFFFFFFFFFF) AND of_bool (m = 0xFFFFFFFFFFFFF)
                AND of_bool (t0 \<ge> 0xFFFFEFFFFFC2F))
      in if x \<noteq> 0 then
           (let t0 = t0 + 0x1000003D1;
                t1 = t1 + drop_bit 52 t0; t0 = t0 AND 0xFFFFFFFFFFFFF;
                t2 = t2 + drop_bit 52 t1; t1 = t1 AND 0xFFFFFFFFFFFFF;
                t3 = t3 + drop_bit 52 t2; t2 = t2 AND 0xFFFFFFFFFFFFF;
                t4 = t4 + drop_bit 52 t3; t3 = t3 AND 0xFFFFFFFFFFFFF;
                t4 = t4 AND 0x0FFFFFFFFFFFF
            in \<lparr>fn0 = t0, fn1 = t1, fn2 = t2, fn3 = t3, fn4 = t4\<rparr>)
         else \<lparr>fn0 = t0, fn1 = t1, fn2 = t2, fn3 = t3, fn4 = t4\<rparr>)"

definition secp256k1_fe_normalize_weak :: "secp256k1_fe \<Rightarrow> secp256k1_fe" where
  "secp256k1_fe_normalize_weak r =
     (let t0 = fn0 r; t1 = fn1 r; t2 = fn2 r; t3 = fn3 r; t4 = fn4 r;
          x = drop_bit 48 t4; t4 = t4 AND 0x0FFFFFFFFFFFF;
          t0 = t0 + x * 0x1000003D1;
          t1 = t1 + drop_bit 52 t0; t0 = t0 AND 0xFFFFFFFFFFFFF;
          t2 = t2 + drop_bit 52 t1; t1 = t1 AND 0xFFFFFFFFFFFFF;
          t3 = t3 + drop_bit 52 t2; t2 = t2 AND 0xFFFFFFFFFFFFF;
          t4 = t4 + drop_bit 52 t3; t3 = t3 AND 0xFFFFFFFFFFFFF
      in \<lparr>fn0 = t0, fn1 = t1, fn2 = t2, fn3 = t3, fn4 = t4\<rparr>)"

definition secp256k1_fe_normalizes_to_zero :: "secp256k1_fe \<Rightarrow> cint" where
  "secp256k1_fe_normalizes_to_zero r =
     (let t0 = fn0 r; t1 = fn1 r; t2 = fn2 r; t3 = fn3 r; t4 = fn4 r;
          x = drop_bit 48 t4; t4 = t4 AND 0x0FFFFFFFFFFFF;
          t0 = t0 + x * 0x1000003D1;
          t1 = t1 + drop_bit 52 t0; t0 = t0 AND 0xFFFFFFFFFFFFF; z0 = t0; z1 = t0 XOR 0x1000003D0;
          t2 = t2 + drop_bit 52 t1; t1 = t1 AND 0xFFFFFFFFFFFFF; z0 = z0 OR t1; z1 = z1 AND t1;
          t3 = t3 + drop_bit 52 t2; t2 = t2 AND 0xFFFFFFFFFFFFF; z0 = z0 OR t2; z1 = z1 AND t2;
          t4 = t4 + drop_bit 52 t3; t3 = t3 AND 0xFFFFFFFFFFFFF; z0 = z0 OR t3; z1 = z1 AND t3;
          z0 = z0 OR t4; z1 = z1 AND (t4 XOR 0xF000000000000)
      in of_bool (z0 = 0) OR of_bool (z1 = 0xFFFFFFFFFFFFF))"

text \<open>In \<open>secp256k1_fe_negate\<close> the factor \<open>2 * (m + 1)\<close> is computed in \<open>uint64_t\<close>
  from the \<open>int\<close> argument \<open>m\<close>.\<close>

definition secp256k1_fe_negate_unchecked :: "secp256k1_fe \<Rightarrow> cint \<Rightarrow> secp256k1_fe" where
  "secp256k1_fe_negate_unchecked a m =
     \<lparr>fn0 = 0xFFFFEFFFFFC2F * 2 * scast (m + 1) - fn0 a,
      fn1 = 0xFFFFFFFFFFFFF * 2 * scast (m + 1) - fn1 a,
      fn2 = 0xFFFFFFFFFFFFF * 2 * scast (m + 1) - fn2 a,
      fn3 = 0xFFFFFFFFFFFFF * 2 * scast (m + 1) - fn3 a,
      fn4 = 0x0FFFFFFFFFFFF * 2 * scast (m + 1) - fn4 a\<rparr>"

definition secp256k1_fe_negate :: "secp256k1_fe \<Rightarrow> cint \<Rightarrow> secp256k1_fe" where
  "secp256k1_fe_negate a m = secp256k1_fe_negate_unchecked a m"

definition secp256k1_fe_add :: "secp256k1_fe \<Rightarrow> secp256k1_fe \<Rightarrow> secp256k1_fe" where
  "secp256k1_fe_add r a =
     \<lparr>fn0 = fn0 r + fn0 a, fn1 = fn1 r + fn1 a, fn2 = fn2 r + fn2 a,
      fn3 = fn3 r + fn3 a, fn4 = fn4 r + fn4 a\<rparr>"

definition secp256k1_fe_add_int :: "secp256k1_fe \<Rightarrow> cint \<Rightarrow> secp256k1_fe" where
  "secp256k1_fe_add_int r a = r\<lparr>fn0 := fn0 r + scast a\<rparr>"

definition secp256k1_fe_equal :: "secp256k1_fe \<Rightarrow> secp256k1_fe \<Rightarrow> cint" where
  "secp256k1_fe_equal a b =
     (let na = secp256k1_fe_negate a 1;
          na = secp256k1_fe_add na b
      in secp256k1_fe_normalizes_to_zero na)"

definition secp256k1_fe_set_b32_mod :: "u8 list \<Rightarrow> secp256k1_fe" where
  "secp256k1_fe_set_b32_mod a =
     \<lparr>fn0 = ucast (a ! 31) OR push_bit 8 (ucast (a ! 30)) OR push_bit 16 (ucast (a ! 29)) OR
            push_bit 24 (ucast (a ! 28)) OR push_bit 32 (ucast (a ! 27)) OR
            push_bit 40 (ucast (a ! 26)) OR push_bit 48 (ucast (a ! 25 AND 0xF)),
      fn1 = ucast (drop_bit 4 (a ! 25) AND 0xF) OR push_bit 4 (ucast (a ! 24)) OR
            push_bit 12 (ucast (a ! 23)) OR push_bit 20 (ucast (a ! 22)) OR
            push_bit 28 (ucast (a ! 21)) OR push_bit 36 (ucast (a ! 20)) OR
            push_bit 44 (ucast (a ! 19)),
      fn2 = ucast (a ! 18) OR push_bit 8 (ucast (a ! 17)) OR push_bit 16 (ucast (a ! 16)) OR
            push_bit 24 (ucast (a ! 15)) OR push_bit 32 (ucast (a ! 14)) OR
            push_bit 40 (ucast (a ! 13)) OR push_bit 48 (ucast (a ! 12 AND 0xF)),
      fn3 = ucast (drop_bit 4 (a ! 12) AND 0xF) OR push_bit 4 (ucast (a ! 11)) OR
            push_bit 12 (ucast (a ! 10)) OR push_bit 20 (ucast (a ! 9)) OR
            push_bit 28 (ucast (a ! 8)) OR push_bit 36 (ucast (a ! 7)) OR
            push_bit 44 (ucast (a ! 6)),
      fn4 = ucast (a ! 5) OR push_bit 8 (ucast (a ! 4)) OR push_bit 16 (ucast (a ! 3)) OR
            push_bit 24 (ucast (a ! 2)) OR push_bit 32 (ucast (a ! 1)) OR
            push_bit 40 (ucast (a ! 0))\<rparr>"

definition secp256k1_fe_set_b32_limit :: "u8 list \<Rightarrow> secp256k1_fe \<times> cint" where
  "secp256k1_fe_set_b32_limit a =
     (let r = secp256k1_fe_set_b32_mod a
      in (r, of_bool ((of_bool (fn4 r = 0x0FFFFFFFFFFFF) AND
                       of_bool ((fn3 r AND fn2 r AND fn1 r) = 0xFFFFFFFFFFFFF) AND
                       of_bool (fn0 r \<ge> 0xFFFFEFFFFFC2F)) = (0 :: cint))))"

definition secp256k1_fe_get_b32 :: "secp256k1_fe \<Rightarrow> u8 list" where
  "secp256k1_fe_get_b32 a =
     [ucast (drop_bit 40 (fn4 a) AND 0xFF), ucast (drop_bit 32 (fn4 a) AND 0xFF),
      ucast (drop_bit 24 (fn4 a) AND 0xFF), ucast (drop_bit 16 (fn4 a) AND 0xFF),
      ucast (drop_bit 8 (fn4 a) AND 0xFF), ucast (fn4 a AND 0xFF),
      ucast (drop_bit 44 (fn3 a) AND 0xFF), ucast (drop_bit 36 (fn3 a) AND 0xFF),
      ucast (drop_bit 28 (fn3 a) AND 0xFF), ucast (drop_bit 20 (fn3 a) AND 0xFF),
      ucast (drop_bit 12 (fn3 a) AND 0xFF), ucast (drop_bit 4 (fn3 a) AND 0xFF),
      ucast ((drop_bit 48 (fn2 a) AND 0xF) OR push_bit 4 (fn3 a AND 0xF)),
      ucast (drop_bit 40 (fn2 a) AND 0xFF), ucast (drop_bit 32 (fn2 a) AND 0xFF),
      ucast (drop_bit 24 (fn2 a) AND 0xFF), ucast (drop_bit 16 (fn2 a) AND 0xFF),
      ucast (drop_bit 8 (fn2 a) AND 0xFF), ucast (fn2 a AND 0xFF),
      ucast (drop_bit 44 (fn1 a) AND 0xFF), ucast (drop_bit 36 (fn1 a) AND 0xFF),
      ucast (drop_bit 28 (fn1 a) AND 0xFF), ucast (drop_bit 20 (fn1 a) AND 0xFF),
      ucast (drop_bit 12 (fn1 a) AND 0xFF), ucast (drop_bit 4 (fn1 a) AND 0xFF),
      ucast ((drop_bit 48 (fn0 a) AND 0xF) OR push_bit 4 (fn1 a AND 0xF)),
      ucast (drop_bit 40 (fn0 a) AND 0xFF), ucast (drop_bit 32 (fn0 a) AND 0xFF),
      ucast (drop_bit 24 (fn0 a) AND 0xFF), ucast (drop_bit 16 (fn0 a) AND 0xFF),
      ucast (drop_bit 8 (fn0 a) AND 0xFF), ucast (fn0 a AND 0xFF)]"

definition secp256k1_fe_mul :: "secp256k1_fe \<Rightarrow> secp256k1_fe \<Rightarrow> secp256k1_fe" where
  "secp256k1_fe_mul a b =
     (let a0 = fn0 a; a1 = fn1 a; a2 = fn2 a; a3 = fn3 a; a4 = fn4 a;
          M = (0xFFFFFFFFFFFFF :: u64); R = (0x1000003D10 :: u64);
          d = secp256k1_u128_mul a0 (fn3 b);
          d = secp256k1_u128_accum_mul d a1 (fn2 b);
          d = secp256k1_u128_accum_mul d a2 (fn1 b);
          d = secp256k1_u128_accum_mul d a3 (fn0 b);
          c = secp256k1_u128_mul a4 (fn4 b);
          d = secp256k1_u128_accum_mul d R (secp256k1_u128_to_u64 c);
          c = secp256k1_u128_rshift c 64;
          t3 = (secp256k1_u128_to_u64 d) AND M;
          d = secp256k1_u128_rshift d 52;
          d = secp256k1_u128_accum_mul d a0 (fn4 b);
          d = secp256k1_u128_accum_mul d a1 (fn3 b);
          d = secp256k1_u128_accum_mul d a2 (fn2 b);
          d = secp256k1_u128_accum_mul d a3 (fn1 b);
          d = secp256k1_u128_accum_mul d a4 (fn0 b);
          d = secp256k1_u128_accum_mul d (push_bit 12 R) (secp256k1_u128_to_u64 c);
          t4 = (secp256k1_u128_to_u64 d) AND M;
          d = secp256k1_u128_rshift d 52;
          tx = drop_bit 48 t4;
          t4 = t4 AND (drop_bit 4 M);
          c = secp256k1_u128_mul a0 (fn0 b);
          d = secp256k1_u128_accum_mul d a1 (fn4 b);
          d = secp256k1_u128_accum_mul d a2 (fn3 b);
          d = secp256k1_u128_accum_mul d a3 (fn2 b);
          d = secp256k1_u128_accum_mul d a4 (fn1 b);
          u0 = (secp256k1_u128_to_u64 d) AND M;
          d = secp256k1_u128_rshift d 52;
          u0 = (push_bit 4 u0) OR tx;
          c = secp256k1_u128_accum_mul c u0 (drop_bit 4 R);
          r0 = (secp256k1_u128_to_u64 c) AND M;
          c = secp256k1_u128_rshift c 52;
          c = secp256k1_u128_accum_mul c a0 (fn1 b);
          c = secp256k1_u128_accum_mul c a1 (fn0 b);
          d = secp256k1_u128_accum_mul d a2 (fn4 b);
          d = secp256k1_u128_accum_mul d a3 (fn3 b);
          d = secp256k1_u128_accum_mul d a4 (fn2 b);
          c = secp256k1_u128_accum_mul c ((secp256k1_u128_to_u64 d) AND M) R;
          d = secp256k1_u128_rshift d 52;
          r1 = (secp256k1_u128_to_u64 c) AND M;
          c = secp256k1_u128_rshift c 52;
          c = secp256k1_u128_accum_mul c a0 (fn2 b);
          c = secp256k1_u128_accum_mul c a1 (fn1 b);
          c = secp256k1_u128_accum_mul c a2 (fn0 b);
          d = secp256k1_u128_accum_mul d a3 (fn4 b);
          d = secp256k1_u128_accum_mul d a4 (fn3 b);
          c = secp256k1_u128_accum_mul c R (secp256k1_u128_to_u64 d);
          d = secp256k1_u128_rshift d 64;
          r2 = (secp256k1_u128_to_u64 c) AND M;
          c = secp256k1_u128_rshift c 52;
          c = secp256k1_u128_accum_mul c (push_bit 12 R) (secp256k1_u128_to_u64 d);
          c = secp256k1_u128_accum_u64 c t3;
          r3 = (secp256k1_u128_to_u64 c) AND M;
          c = secp256k1_u128_rshift c 52;
          r4 = (secp256k1_u128_to_u64 c) + t4
      in \<lparr>fn0 = r0, fn1 = r1, fn2 = r2, fn3 = r3, fn4 = r4\<rparr>)"

definition secp256k1_fe_sqr :: "secp256k1_fe \<Rightarrow> secp256k1_fe" where
  "secp256k1_fe_sqr a =
     (let a0 = fn0 a; a1 = fn1 a; a2 = fn2 a; a3 = fn3 a; a4 = fn4 a;
          M = (0xFFFFFFFFFFFFF :: u64); R = (0x1000003D10 :: u64);
          d = secp256k1_u128_mul (a0 * 2) a3;
          d = secp256k1_u128_accum_mul d (a1 * 2) a2;
          c = secp256k1_u128_mul a4 a4;
          d = secp256k1_u128_accum_mul d R (secp256k1_u128_to_u64 c);
          c = secp256k1_u128_rshift c 64;
          t3 = (secp256k1_u128_to_u64 d) AND M;
          d = secp256k1_u128_rshift d 52;
          a4 = a4 * 2;
          d = secp256k1_u128_accum_mul d a0 a4;
          d = secp256k1_u128_accum_mul d (a1 * 2) a3;
          d = secp256k1_u128_accum_mul d a2 a2;
          d = secp256k1_u128_accum_mul d (push_bit 12 R) (secp256k1_u128_to_u64 c);
          t4 = (secp256k1_u128_to_u64 d) AND M;
          d = secp256k1_u128_rshift d 52;
          tx = drop_bit 48 t4;
          t4 = t4 AND (drop_bit 4 M);
          c = secp256k1_u128_mul a0 a0;
          d = secp256k1_u128_accum_mul d a1 a4;
          d = secp256k1_u128_accum_mul d (a2 * 2) a3;
          u0 = (secp256k1_u128_to_u64 d) AND M;
          d = secp256k1_u128_rshift d 52;
          u0 = (push_bit 4 u0) OR tx;
          c = secp256k1_u128_accum_mul c u0 (drop_bit 4 R);
          r0 = (secp256k1_u128_to_u64 c) AND M;
          c = secp256k1_u128_rshift c 52;
          a0 = a0 * 2;
          c = secp256k1_u128_accum_mul c a0 a1;
          d = secp256k1_u128_accum_mul d a2 a4;
          d = secp256k1_u128_accum_mul d a3 a3;
          c = secp256k1_u128_accum_mul c ((secp256k1_u128_to_u64 d) AND M) R;
          d = secp256k1_u128_rshift d 52;
          r1 = (secp256k1_u128_to_u64 c) AND M;
          c = secp256k1_u128_rshift c 52;
          c = secp256k1_u128_accum_mul c a0 a2;
          c = secp256k1_u128_accum_mul c a1 a1;
          d = secp256k1_u128_accum_mul d a3 a4;
          c = secp256k1_u128_accum_mul c R (secp256k1_u128_to_u64 d);
          d = secp256k1_u128_rshift d 64;
          r2 = (secp256k1_u128_to_u64 c) AND M;
          c = secp256k1_u128_rshift c 52;
          c = secp256k1_u128_accum_mul c (push_bit 12 R) (secp256k1_u128_to_u64 d);
          c = secp256k1_u128_accum_u64 c t3;
          r3 = (secp256k1_u128_to_u64 c) AND M;
          c = secp256k1_u128_rshift c 52;
          r4 = (secp256k1_u128_to_u64 c) + t4
      in \<lparr>fn0 = r0, fn1 = r1, fn2 = r2, fn3 = r3, fn4 = r4\<rparr>)"

text \<open>\<open>secp256k1_fe_mul(r, a, b)\<close> when \<open>r\<close> and \<open>b\<close> are the same object (the macro
  \<open>SECP256K1_RESTRICT\<close> is empty, so this is defined behaviour): the limbs of \<open>a\<close> are
  copied on entry, while each read of \<open>b->n[i]\<close> sees the writes to \<open>r->n[i]\<close> made so far.\<close>

definition secp256k1_fe_mul_alias :: "secp256k1_fe \<Rightarrow> secp256k1_fe \<Rightarrow> secp256k1_fe" where
  "secp256k1_fe_mul_alias a b =
     (let a0 = fn0 a; a1 = fn1 a; a2 = fn2 a; a3 = fn3 a; a4 = fn4 a;
          b0 = fn0 b; b1 = fn1 b; b2 = fn2 b; b3 = fn3 b; b4 = fn4 b;
          M = (0xFFFFFFFFFFFFF :: u64); R = (0x1000003D10 :: u64);
          d = secp256k1_u128_mul a0 b3;
          d = secp256k1_u128_accum_mul d a1 b2;
          d = secp256k1_u128_accum_mul d a2 b1;
          d = secp256k1_u128_accum_mul d a3 b0;
          c = secp256k1_u128_mul a4 b4;
          d = secp256k1_u128_accum_mul d R (secp256k1_u128_to_u64 c);
          c = secp256k1_u128_rshift c 64;
          t3 = (secp256k1_u128_to_u64 d) AND M;
          d = secp256k1_u128_rshift d 52;
          d = secp256k1_u128_accum_mul d a0 b4;
          d = secp256k1_u128_accum_mul d a1 b3;
          d = secp256k1_u128_accum_mul d a2 b2;
          d = secp256k1_u128_accum_mul d a3 b1;
          d = secp256k1_u128_accum_mul d a4 b0;
          d = secp256k1_u128_accum_mul d (push_bit 12 R) (secp256k1_u128_to_u64 c);
          t4 = (secp256k1_u128_to_u64 d) AND M;
          d = secp256k1_u128_rshift d 52;
          tx = drop_bit 48 t4;
          t4 = t4 AND (drop_bit 4 M);
          c = secp256k1_u128_mul a0 b0;
          d = secp256k1_u128_accum_mul d a1 b4;
          d = secp256k1_u128_accum_mul d a2 b3;
          d = secp256k1_u128_accum_mul d a3 b2;
          d = secp256k1_u128_accum_mul d a4 b1;
          u0 = (secp256k1_u128_to_u64 d) AND M;
          d = secp256k1_u128_rshift d 52;
          u0 = (push_bit 4 u0) OR tx;
          c = secp256k1_u128_accum_mul c u0 (drop_bit 4 R);
          b0 = (secp256k1_u128_to_u64 c) AND M;
          c = secp256k1_u128_rshift c 52;
          c = secp256k1_u128_accum_mul c a0 b1;
          c = secp256k1_u128_accum_mul c a1 b0;
          d = secp256k1_u128_accum_mul d a2 b4;
          d = secp256k1_u128_accum_mul d a3 b3;
          d = secp256k1_u128_accum_mul d a4 b2;
          c = secp256k1_u128_accum_mul c ((secp256k1_u128_to_u64 d) AND M) R;
          d = secp256k1_u128_rshift d 52;
          b1 = (secp256k1_u128_to_u64 c) AND M;
          c = secp256k1_u128_rshift c 52;
          c = secp256k1_u128_accum_mul c a0 b2;
          c = secp256k1_u128_accum_mul c a1 b1;
          c = secp256k1_u128_accum_mul c a2 b0;
          d = secp256k1_u128_accum_mul d a3 b4;
          d = secp256k1_u128_accum_mul d a4 b3;
          c = secp256k1_u128_accum_mul c R (secp256k1_u128_to_u64 d);
          d = secp256k1_u128_rshift d 64;
          b2 = (secp256k1_u128_to_u64 c) AND M;
          c = secp256k1_u128_rshift c 52;
          c = secp256k1_u128_accum_mul c (push_bit 12 R) (secp256k1_u128_to_u64 d);
          c = secp256k1_u128_accum_u64 c t3;
          b3 = (secp256k1_u128_to_u64 c) AND M;
          c = secp256k1_u128_rshift c 52;
          b4 = (secp256k1_u128_to_u64 c) + t4
      in \<lparr>fn0 = b0, fn1 = b1, fn2 = b2, fn3 = b3, fn4 = b4\<rparr>)"

text \<open>\<open>secp256k1_fe_sqrt\<close>: the result is the candidate root together with the flag telling
  whether its square equals the input.  The loops \<open>for (j=0; j<k; j++) secp256k1_fe_sqr\<close>
  are iterations of the squaring function.\<close>

definition secp256k1_fe_sqrt :: "secp256k1_fe \<Rightarrow> secp256k1_fe \<times> cint" where
  "secp256k1_fe_sqrt a =
     (let x2 = secp256k1_fe_sqr a;
          x2 = secp256k1_fe_mul x2 a;
          x3 = secp256k1_fe_sqr x2;
          x3 = secp256k1_fe_mul x3 a;
          x6 = (secp256k1_fe_sqr ^^ 3) x3;
          x6 = secp256k1_fe_mul x6 x3;
          x9 = (secp256k1_fe_sqr ^^ 3) x6;
          x9 = secp256k1_fe_mul x9 x3;
          x11 = (secp256k1_fe_sqr ^^ 2) x9;
          x11 = secp256k1_fe_mul x11 x2;
          x22 = (secp256k1_fe_sqr ^^ 11) x11;
          x22 = secp256k1_fe_mul x22 x11;
          x44 = (secp256k1_fe_sqr ^^ 22) x22;
          x44 = secp256k1_fe_mul x44 x22;
          x88 = (secp256k1_fe_sqr ^^ 44) x44;
          x88 = secp256k1_fe_mul x88 x44;
          x176 = (secp256k1_fe_sqr ^^ 88) x88;
          x176 = secp256k1_fe_mul x176 x88;
          x220 = (secp256k1_fe_sqr ^^ 44) x176;
          x220 = secp256k1_fe_mul x220 x44;
          x223 = (secp256k1_fe_sqr ^^ 3) x220;
          x223 = secp256k1_fe_mul x223 x3;
          t1 = (secp256k1_fe_sqr ^^ 23) x223;
          t1 = secp256k1_fe_mul t1 x22;
          t1 = (secp256k1_fe_sqr ^^ 6) t1;
          t1 = secp256k1_fe_mul t1 x2;
          t1 = secp256k1_fe_sqr t1;
          r = secp256k1_fe_sqr t1;
          t1 = secp256k1_fe_sqr r
      in (r, secp256k1_fe_equal t1 a))"

text \<open>\<open>secp256k1_fe_inv_var(r, x)\<close>.  Both calls in the source pass the same object as
  \<open>r\<close> and \<open>x\<close>; the intermediate results go to locals, and the last multiplication
  \<open>secp256k1_fe_mul(r, &t1, x)\<close> therefore runs with \<open>r\<close> and \<open>b\<close> aliased.\<close>

definition secp256k1_fe_inv_var :: "secp256k1_fe \<Rightarrow> secp256k1_fe" where
  "secp256k1_fe_inv_var x =
     (let x2 = secp256k1_fe_sqr x;
          x3 = secp256k1_fe_mul x2 x;
          x6 = (secp256k1_fe_sqr ^^ 3) x3;
          x6 = secp256k1_fe_mul x6 x3;
          x9 = (secp256k1_fe_sqr ^^ 3) x6;
          x9 = secp256k1_fe_mul x9 x3;
          x11 = (secp256k1_fe_sqr ^^ 2) x9;
          x11 = secp256k1_fe_mul x11 x2;
          x22 = (secp256k1_fe_sqr ^^ 11) x11;
          x22 = secp256k1_fe_mul x22 x11;
          x44 = (secp256k1_fe_sqr ^^ 22) x22;
          x44 = secp256k1_fe_mul x44 x22;
          x88 = (secp256k1_fe_sqr ^^ 44) x44;
          x88 = secp256k1_fe_mul x88 x44;
          x176 = (secp256k1_fe_sqr ^^ 88) x88;
          x176 = secp256k1_fe_mul x176 x88;
          x220 = (secp256k1_fe_sqr ^^ 44) x176;
          x220 = secp256k1_fe_mul x220 x44;
          x223 = (secp256k1_fe_sqr ^^ 3) x220;
          x223 = secp256k1_fe_mul x223 x3;
          t1 = (secp256k1_fe_sqr ^^ 23) x223;
          t1 = secp256k1_fe_mul t1 x22;
          t1 = (secp256k1_fe_sqr ^^ 5) t1;
          t1 = secp256k1_fe_mul t1 x;
          t1 = (secp256k1_fe_sqr ^^ 3) t1;
          t1 = secp256k1_fe_mul t1 x2;
          t1 = (secp256k1_fe_sqr ^^ 2) t1;
          r = secp256k1_fe_mul_alias t1 x
      in secp256k1_fe_normalize_var r)"

section \<open>Group elements\<close>

record secp256k1_ge =
  ge_x :: secp256k1_fe
  ge_y :: secp256k1_fe
  ge_infinity :: cint

record secp256k1_gej =
  gej_x :: secp256k1_fe
  gej_y :: secp256k1_fe
  gej_z :: secp256k1_fe
  gej_infinity :: cint

definition secp256k1_ge_set_infinity :: secp256k1_ge where
  "secp256k1_ge_set_infinity =
     \<lparr>ge_x = secp256k1_fe_set_int 0, ge_y = secp256k1_fe_set_int 0, ge_infinity = 1\<rparr>"

definition secp256k1_ge_is_infinity :: "secp256k1_ge \<Rightarrow> cint" where
  "secp256k1_ge_is_infinity a = ge_infinity a"

definition secp256k1_ge_set_xy :: "secp256k1_fe \<Rightarrow> secp256k1_fe \<Rightarrow> secp256k1_ge" where
  "secp256k1_ge_set_xy x y = \<lparr>ge_x = x, ge_y = y, ge_infinity = 0\<rparr>"

text \<open>\<open>secp256k1_ge_set_xo_var\<close> returns the point written to \<open>r\<close> and the return value.\<close>

definition secp256k1_ge_set_xo_var :: "secp256k1_fe \<Rightarrow> cint \<Rightarrow> secp256k1_ge \<times> cint" where
  "secp256k1_ge_set_xo_var x odd' =
     (let x2 = secp256k1_fe_sqr x;
          x3 = secp256k1_fe_mul x x2;
          x3 = secp256k1_fe_add_int x3 7;
          sq = secp256k1_fe_sqrt x3;
          ret = snd sq;
          y = secp256k1_fe_normalize_var (fst sq);
          y = (if secp256k1_fe_is_odd y \<noteq> odd' then secp256k1_fe_negate y 1 else y)
      in (\<lparr>ge_x = x, ge_y = y, ge_infinity = 0\<rparr>, ret))"

definition secp256k1_gej_set_infinity :: secp256k1_gej where
  "secp256k1_gej_set_infinity =
     \<lparr>gej_x = secp256k1_fe_set_int 0, gej_y = secp256k1_fe_set_int 0,
      gej_z = secp256k1_fe_set_int 0, gej_infinity = 1\<rparr>"

definition secp256k1_gej_is_infinity :: "secp256k1_gej \<Rightarrow> cint" where
  "secp256k1_gej_is_infinity a = gej_infinity a"

definition secp256k1_gej_set_ge :: "secp256k1_ge \<Rightarrow> secp256k1_gej" where
  "secp256k1_gej_set_ge a =
     \<lparr>gej_x = ge_x a, gej_y = ge_y a, gej_z = secp256k1_fe_set_int 1,
      gej_infinity = ge_infinity a\<rparr>"

text \<open>\<open>secp256k1_ge_set_gej\<close> and \<open>secp256k1_ge_set_gej_var\<close> also overwrite their
  argument \<open>a\<close>; the callers do not read it afterwards, and the functions return \<open>r\<close>.\<close>

definition secp256k1_ge_set_gej :: "secp256k1_gej \<Rightarrow> secp256k1_ge" where
  "secp256k1_ge_set_gej a =
     (let az = secp256k1_fe_inv_var (gej_z a);
          z2 = secp256k1_fe_sqr az;
          z3 = secp256k1_fe_mul az z2;
          ax = secp256k1_fe_mul (gej_x a) z2;
          ay = secp256k1_fe_mul (gej_y a) z3
      in \<lparr>ge_x = ax, ge_y = ay, ge_infinity = gej_infinity a\<rparr>)"

definition secp256k1_ge_set_gej_var :: "secp256k1_gej \<Rightarrow> secp256k1_ge" where
  "secp256k1_ge_set_gej_var a =
     (if secp256k1_gej_is_infinity a \<noteq> 0 then secp256k1_ge_set_infinity
      else
        (let az = secp256k1_fe_inv_var (gej_z a);
             z2 = secp256k1_fe_sqr az;
             z3 = secp256k1_fe_mul az z2;
             ax = secp256k1_fe_mul (gej_x a) z2;
             ay = secp256k1_fe_mul (gej_y a) z3
         in secp256k1_ge_set_xy ax ay))"

text \<open>The storage form is the \<open>uint64_t n[4]\<close> of \<open>secp256k1_ge_storage\<close>.\<close>

definition secp256k1_ge_from_storage :: "u64 list \<Rightarrow> secp256k1_ge" where
  "secp256k1_ge_from_storage a =
     (let x = \<lparr>fn0 = a ! 0 AND 0xFFFFFFFFFFFFF, fn1 = drop_bit 52 (a ! 0),
                fn2 = a ! 1 AND 0xFFFFFFFFFFFFF,
                fn3 = drop_bit 40 (a ! 1) AND 0xFFFFFFFFFFFFF, fn4 = drop_bit 56 (a ! 1)\<rparr>;
          y = \<lparr>fn0 = a ! 2 AND 0xFFFFFFFFFFFFF, fn1 = drop_bit 52 (a ! 2),
                fn2 = a ! 3 AND 0xFFFFFFFFFFFFF,
                fn3 = drop_bit 40 (a ! 3) AND 0xFFFFFFFFFFFFF, fn4 = drop_bit 56 (a ! 3)\<rparr>
      in secp256k1_ge_set_xy x y)"

text \<open>\<open>memcpy\<close> from a byte buffer to the \<open>uint64_t\<close> array of the storage struct, on
  a little-endian target: \<open>load_le64\<close> is the 64-bit word that eight copied bytes form.\<close>

definition load_le64 :: "u8 list \<Rightarrow> nat \<Rightarrow> u64" where
  "load_le64 p i =
     (ucast (p ! i) OR push_bit 8 (ucast (p ! (i + 1))) OR push_bit 16 (ucast (p ! (i + 2))) OR
      push_bit 24 (ucast (p ! (i + 3))) OR push_bit 32 (ucast (p ! (i + 4))) OR
      push_bit 40 (ucast (p ! (i + 5))) OR push_bit 48 (ucast (p ! (i + 6))) OR
      push_bit 56 (ucast (p ! (i + 7))))"

text \<open>A copy that is longer than the object it is copied into writes past the end of that
  object; the C standard leaves the behaviour undefined, and the model stops there with a
  fault.  Functions that can reach such a copy return a fault or their result.\<close>

datatype fault = Out_of_bounds_write

text \<open>\<open>sizeof(secp256k1_ge_storage)\<close>: the struct is \<open>uint64_t n[4]\<close>.\<close>

definition sizeof_secp256k1_ge_storage :: nat where
  "sizeof_secp256k1_ge_storage = 4 * 8"

text \<open>\<open>secp256k1_ge_from_bytes\<close> copies 64 bytes into its local \<open>secp256k1_ge_storage s\<close> with
  \<open>memcpy(&s, buf, 64)\<close> and then converts \<open>s\<close>.\<close>

definition secp256k1_ge_from_bytes :: "u8 list \<Rightarrow> fault + secp256k1_ge" where
  "secp256k1_ge_from_bytes buf =
     (if 64 \<le> sizeof_secp256k1_ge_storage
      then Inr (secp256k1_ge_from_storage
                  [load_le64 buf 0, load_le64 buf 8, load_le64 buf 16, load_le64 buf 24])
      else Inl Out_of_bounds_write)"

section \<open>Public keys and key pairs\<close>

text \<open>\<open>secp256k1_pubkey_load\<close> writes \<open>ge\<close> before its argument check; it returns the
  point and the return value.\<close>

definition secp256k1_pubkey_load :: "u8 list \<Rightarrow> fault + secp256k1_ge \<times> cint" where
  "secp256k1_pubkey_load pubkey =
     (case secp256k1_ge_from_bytes pubkey of
        Inl f \<Rightarrow> Inl f
      | Inr ge \<Rightarrow>
          Inr (if of_bool (secp256k1_fe_is_zero (ge_x ge) = 0) = (0 :: cint) then (ge, 0) else (ge, 1)))"

definition secp256k1_xonly_pubkey_load :: "u8 list \<Rightarrow> fault + secp256k1_ge \<times> cint" where
  "secp256k1_xonly_pubkey_load pubkey = secp256k1_pubkey_load pubkey"

text \<open>The constant \<open>secp256k1_ge_const_g\<close>, as the macro \<open>SECP256K1_GE_CONST\<close> of the source
  builds it from its sixteen 32-bit arguments.\<close>

definition SECP256K1_GE_CONST ::
  "u64 \<Rightarrow> u64 \<Rightarrow> u64 \<Rightarrow> u64 \<Rightarrow> u64 \<Rightarrow> u64 \<Rightarrow> u64 \<Rightarrow> u64 \<Rightarrow>
   u64 \<Rightarrow> u64 \<Rightarrow> u64 \<Rightarrow> u64 \<Rightarrow> u64 \<Rightarrow> u64 \<Rightarrow> u64 \<Rightarrow> u64 \<Rightarrow> secp256k1_ge" where
  "SECP256K1_GE_CONST a b c d e f g h i j k l m n o' p =
     \<lparr>ge_x = \<lparr>fn0 = push_bit 32 a OR b, fn1 = push_bit 32 c OR d, fn2 = push_bit 32 e OR f,
               fn3 = push_bit 32 g OR h, fn4 = push_bit 32 i OR j\<rparr>,
      ge_y = \<lparr>fn0 = push_bit 32 k OR l, fn1 = push_bit 32 m OR n, fn2 = push_bit 32 o' OR p,
               fn3 = 0, fn4 = 0\<rparr>,
      ge_infinity = 0\<rparr>"

definition secp256k1_ge_const_g :: secp256k1_ge where
  "secp256k1_ge_const_g = SECP256K1_GE_CONST
     0x79be667e 0xf9dcbbac 0x55a06295 0xce870b07
     0x029bfcdb 0x2dce28d9 0x59f2815b 0x16f81798
     0x483ada77 0x26a3c465 0x5da4fbfc 0x0e1108a8
     0xfd17b448 0xa6855419 0x9c47d08f 0xfb10d4b8"

definition secp256k1_keypair_seckey_load :: "u8 list \<Rightarrow> secp256k1_scalar \<times> cint" where
  "secp256k1_keypair_seckey_load keypair = secp256k1_scalar_set_b32_seckey (take 32 keypair)"

text \<open>\<open>secp256k1_keypair_load\<close>.  The output pointer \<open>sk\<close> may be null: its old content is
  \<open>Some\<close> scalar, or \<open>None\<close> for a null pointer.  The result is the return value and the
  contents of \<open>sk\<close> and \<open>pk\<close>.  \<open>secp256k1_keypair_load_rest\<close> is the part of the function
  that follows the call of \<open>secp256k1_pubkey_load\<close>, applied to what that call left in \<open>pk\<close>
  and returned.\<close>

definition secp256k1_keypair_load_rest ::
  "secp256k1_scalar option \<Rightarrow> u8 list \<Rightarrow> secp256k1_ge \<times> cint \<Rightarrow>
   cint \<times> secp256k1_scalar option \<times> secp256k1_ge" where
  "secp256k1_keypair_load_rest sk keypair pl =
     (let pk = fst pl;
          ret = snd pl;
          sl = secp256k1_keypair_seckey_load keypair;
          sk1 = (if sk \<noteq> None \<and> ret \<noteq> 0 then Some (fst sl) else sk);
          ret = (if sk \<noteq> None then of_bool (ret \<noteq> 0 \<and> snd sl \<noteq> 0) else ret)
      in if ret = 0
         then (ret, if sk \<noteq> None then Some secp256k1_scalar_one else sk1, secp256k1_ge_const_g)
         else (ret, sk1, pk))"

definition secp256k1_keypair_load ::
  "secp256k1_scalar option \<Rightarrow> u8 list \<Rightarrow>
   fault + cint \<times> secp256k1_scalar option \<times> secp256k1_ge" where
  "secp256k1_keypair_load sk keypair =
     (case secp256k1_pubkey_load (drop 32 keypair) of
        Inl f \<Rightarrow> Inl f
      | Inr pl \<Rightarrow> Inr (secp256k1_keypair_load_rest sk keypair pl))"
section \<open>BIP-340 tagged hashes and nonce function\<close>

text \<open>The tag \<open>"BIP0340/nonce"\<close> (\<open>bip340_algo\<close> in the source), and the two other tags
  of BIP-340, \<open>"BIP0340/aux"\<close> and \<open>"BIP0340/challenge"\<close>, as byte strings.\<close>

definition bip340_algo :: "u8 list" where
  "bip340_algo = [0x42, 0x49, 0x50, 0x30, 0x33, 0x34, 0x30, 0x2F, 0x6E, 0x6F, 0x6E, 0x63, 0x65]"

definition bip340_tag_aux :: "u8 list" where
  "bip340_tag_aux = [0x42, 0x49, 0x50, 0x30, 0x33, 0x34, 0x30, 0x2F, 0x61, 0x75, 0x78]"

definition bip340_tag_challenge :: "u8 list" where
  "bip340_tag_challenge = [0x42, 0x49, 0x50, 0x30, 0x33, 0x34, 0x30, 0x2F,
                           0x63, 0x68, 0x61, 0x6C, 0x6C, 0x65, 0x6E, 0x67, 0x65]"

text \<open>A \<open>secp256k1_sha256\<close> local variable before it is initialised.  Its content is
  indeterminate in C; every user below sets the state words and the byte counter first and
  fills the buffer before hashing it.\<close>

definition sha256_local :: secp256k1_sha256 where
  "sha256_local = \<lparr>sha_s = replicate 8 0, sha_buf = replicate 64 0, sha_bytes = 0\<rparr>"

definition secp256k1_nonce_function_bip340_sha256_tagged :: "secp256k1_sha256 \<Rightarrow> secp256k1_sha256" where
  "secp256k1_nonce_function_bip340_sha256_tagged sha =
     (secp256k1_sha256_initialize sha)
       \<lparr>sha_s := [0x46615b35, 0xf4bfbff7, 0x9f8dc671, 0x83627ab3,
                  0x60217180, 0x57358661, 0x21a29e54, 0x68b07b4c],
        sha_bytes := 64\<rparr>"

definition secp256k1_nonce_function_bip340_sha256_tagged_aux :: "secp256k1_sha256 \<Rightarrow> secp256k1_sha256" where
  "secp256k1_nonce_function_bip340_sha256_tagged_aux sha =
     (secp256k1_sha256_initialize sha)
       \<lparr>sha_s := [0x24dd3219, 0x4eba7e70, 0xca0fabb9, 0x0fa3166d,
                  0x3afbe4b1, 0x4c44df97, 0x4aac2739, 0x249e850a],
        sha_bytes := 64\<rparr>"

definition secp256k1_schnorrsig_sha256_tagged :: "secp256k1_sha256 \<Rightarrow> secp256k1_sha256" where
  "secp256k1_schnorrsig_sha256_tagged sha =
     (secp256k1_sha256_initialize sha)
       \<lparr>sha_s := [0x9cecba11, 0x23925381, 0x11679112, 0xd1627e0f,
                  0x97c87550, 0x003cc765, 0x90f61164, 0x33e9b66a],
        sha_bytes := 64\<rparr>"

definition ZERO_MASK :: "u8 list" where
  "ZERO_MASK = [ 84, 241, 105, 207, 201, 226, 229, 114,
                116, 128,  68,  31, 144, 186,  37, 196,
                136, 244,  97, 199,  11,  94, 165, 220,
                170, 247, 175, 105,  39,  10, 165,  20]"

text \<open>\<open>nonce_function_bip340\<close>.  The pointers \<open>algo\<close> and \<open>data\<close> may be null and are
  options; \<open>msg\<close> stands for the \<open>msglen\<close> bytes at \<open>msg\<close>.  The result is the return
  value and the content of \<open>nonce32\<close>.\<close>

definition nonce_function_bip340 ::
  "u8 list \<Rightarrow> u8 list \<Rightarrow> u8 list \<Rightarrow> u8 list \<Rightarrow> u8 list option \<Rightarrow> u8 list option \<Rightarrow> cint \<times> u8 list" where
  "nonce_function_bip340 nonce32 msg key32 xonly_pk32 algo data =
     (case algo of
        None \<Rightarrow> (0, nonce32)
      | Some algo_bytes \<Rightarrow>
         (let masked_key =
                (case data of
                   Some aux \<Rightarrow>
                     (let sha = secp256k1_nonce_function_bip340_sha256_tagged_aux sha256_local;
                          sha = secp256k1_sha256_write sha (take 32 aux);
                          masked = snd (secp256k1_sha256_finalize sha)
                      in map2 (XOR) masked (take 32 key32))
                 | None \<Rightarrow> map2 (XOR) (take 32 key32) ZERO_MASK);
              sha = (if length algo_bytes = length bip340_algo
                        \<and> secp256k1_memcmp_var algo_bytes bip340_algo = 0
                     then secp256k1_nonce_function_bip340_sha256_tagged sha256_local
                     else secp256k1_sha256_initialize_tagged sha256_local algo_bytes);
              sha = secp256k1_sha256_write sha masked_key;
              sha = secp256k1_sha256_write sha (take 32 xonly_pk32);
              sha = secp256k1_sha256_write sha msg
          in (1, snd (secp256k1_sha256_finalize sha))))"

section \<open>Schnorr signatures\<close>

text \<open>The message argument: a pointer that may be null, and a length.  The bytes hashed are
  the \<open>msglen\<close> bytes at \<open>msg\<close>; with a null pointer and length 0 nothing is hashed.\<close>

definition msg_bytes :: "u8 list option \<Rightarrow> nat \<Rightarrow> u8 list" where
  "msg_bytes msg msglen = (case msg of None \<Rightarrow> [] | Some m \<Rightarrow> take msglen m)"

definition secp256k1_schnorrsig_challenge :: "u8 list \<Rightarrow> u8 list \<Rightarrow> u8 list \<Rightarrow> secp256k1_scalar" where
  "secp256k1_schnorrsig_challenge r32 msg pubkey32 =
     (let sha = secp256k1_schnorrsig_sha256_tagged sha256_local;
          sha = secp256k1_sha256_write sha (take 32 r32);
          sha = secp256k1_sha256_write sha (take 32 pubkey32);
          sha = secp256k1_sha256_write sha msg;
          buf = snd (secp256k1_sha256_finalize sha)
      in fst (secp256k1_scalar_set_b32 buf))"

text \<open>The context: only the flag \<open>built\<close> of the generator-multiplication context is read
  by the code modelled here.\<close>

record secp256k1_context =
  ecmult_gen_built :: cint

definition secp256k1_ecmult_gen_context_is_built :: "secp256k1_context \<Rightarrow> cint" where
  "secp256k1_ecmult_gen_context_is_built ctx = ecmult_gen_built ctx"

text \<open>A nonce function takes \<open>nonce32\<close>, the message bytes, \<open>key32\<close>, \<open>xonly_pk32\<close>, \<open>algo\<close> and
  \<open>data\<close>, and returns its return value and the new \<open>nonce32\<close>.\<close>

type_synonym secp256k1_nonce_function_hardened =
  "u8 list \<Rightarrow> u8 list \<Rightarrow> u8 list \<Rightarrow> u8 list \<Rightarrow> u8 list option \<Rightarrow> u8 list option \<Rightarrow> cint \<times> u8 list"

text \<open>\<open>secp256k1_schnorrsig_sign_internal\<close>.  The bodies of \<open>secp256k1_ecmult_gen\<close> and
  \<open>secp256k1_ecmult\<close> in the source are placeholders that assign nothing to their result;
  the model takes the Jacobian point they leave in \<open>r\<close> as a parameter \<open>ecmult_gen\<close>
  (\<open>ecmult\<close> below).  Pointers that may be null are options.  The result is a fault, or the
  return value and the content of the buffer \<open>sig64\<close>.\<close>

definition secp256k1_schnorrsig_sign_internal ::
  "(secp256k1_context \<Rightarrow> secp256k1_scalar \<Rightarrow> secp256k1_gej) \<Rightarrow> secp256k1_context \<Rightarrow>
   u8 list option \<Rightarrow> u8 list option \<Rightarrow> nat \<Rightarrow> u8 list option \<Rightarrow>
   secp256k1_nonce_function_hardened option \<Rightarrow> u8 list option \<Rightarrow>
   fault + cint \<times> u8 list option" where
  "secp256k1_schnorrsig_sign_internal ecmult_gen ctx sig64 msg msglen keypair noncefp ndata =
     (if secp256k1_ecmult_gen_context_is_built ctx = 0 then Inr (0, sig64)
      else if sig64 = None then Inr (0, sig64)
      else if \<not> (msg \<noteq> None \<or> msglen = 0) then Inr (0, sig64)
      else if keypair = None then Inr (0, sig64)
      else
        (let nonce32 = replicate 32 0;
             ret = (1 :: cint);
             noncefp = (case noncefp of None \<Rightarrow> nonce_function_bip340 | Some f \<Rightarrow> f)
         in case secp256k1_keypair_load (Some secp256k1_scalar_zero) (the keypair) of
              Inl f \<Rightarrow> Inl f
            | Inr kl \<Rightarrow>
                Inr (let ret = ret AND fst kl;
                         sk = the (fst (snd kl));
                         pk = snd (snd kl);
                         sk = (if secp256k1_fe_is_odd (ge_y pk) \<noteq> 0 then secp256k1_scalar_negate sk else sk);
                         seckey = secp256k1_scalar_get_b32 sk;
                         pk_buf = secp256k1_fe_get_b32 (ge_x pk);
                         nf = noncefp nonce32 (msg_bytes msg msglen) seckey pk_buf (Some bip340_algo) ndata;
                         ret = ret AND of_bool (fst nf \<noteq> 0);
                         nonce32 = snd nf;
                         k = fst (secp256k1_scalar_set_b32 nonce32);
                         ret = ret AND of_bool (secp256k1_scalar_is_zero k = 0);
                         k = secp256k1_scalar_cmov k secp256k1_scalar_one (of_bool (ret = 0));
                         rj = ecmult_gen ctx k;
                         r = secp256k1_ge_set_gej rj;
                         r = r\<lparr>ge_y := secp256k1_fe_normalize_var (ge_y r)\<rparr>;
                         k = (if secp256k1_fe_is_odd (ge_y r) \<noteq> 0 then secp256k1_scalar_negate k else k);
                         r = r\<lparr>ge_x := secp256k1_fe_normalize_var (ge_x r)\<rparr>;
                         sig_r = secp256k1_fe_get_b32 (ge_x r);
                         e = secp256k1_schnorrsig_challenge sig_r (msg_bytes msg msglen) pk_buf;
                         e = secp256k1_scalar_mul e sk;
                         e = fst (secp256k1_scalar_add e k);
                         sig_s = secp256k1_scalar_get_b32 e;
                         sig = secp256k1_memczero (sig_r @ sig_s) (of_bool (ret = 0))
                     in (ret, Some (sig @ drop 64 (the sig64))))))"

definition secp256k1_schnorrsig_sign32 ::
  "(secp256k1_context \<Rightarrow> secp256k1_scalar \<Rightarrow> secp256k1_gej) \<Rightarrow> secp256k1_context \<Rightarrow>
   u8 list option \<Rightarrow> u8 list option \<Rightarrow> u8 list option \<Rightarrow> u8 list option \<Rightarrow>
   fault + cint \<times> u8 list option" where
  "secp256k1_schnorrsig_sign32 ecmult_gen ctx sig64 msg32 keypair aux_rand32 =
     secp256k1_schnorrsig_sign_internal ecmult_gen ctx sig64 msg32 32 keypair
       (Some nonce_function_bip340) aux_rand32"

text \<open>\<open>secp256k1_schnorrsig_verify\<close>: a fault, or the return value.\<close>

definition secp256k1_schnorrsig_verify ::
  "(secp256k1_gej \<Rightarrow> secp256k1_scalar \<Rightarrow> secp256k1_scalar \<Rightarrow> secp256k1_gej) \<Rightarrow>
   u8 list option \<Rightarrow> u8 list option \<Rightarrow> nat \<Rightarrow> u8 list option \<Rightarrow> fault + cint" where
  "secp256k1_schnorrsig_verify ecmult sig64 msg msglen pubkey =
     (if sig64 = None then Inr 0
      else if \<not> (msg \<noteq> None \<or> msglen = 0) then Inr 0
      else if pubkey = None then Inr 0
      else
        (let rxl = secp256k1_fe_set_b32_limit (take 32 (the sig64));
             rx = fst rxl
         in if snd rxl = 0 then Inr 0
            else
              (let so = secp256k1_scalar_set_b32 (take 32 (drop 32 (the sig64)));
                   s = fst so;
                   overflow = snd so
               in if overflow \<noteq> 0 then Inr 0
                  else
                    (case secp256k1_xonly_pubkey_load (the pubkey) of
                       Inl f \<Rightarrow> Inl f
                     | Inr pl \<Rightarrow>
                         (let pk = fst pl
                          in if snd pl = 0 then Inr 0
                             else
                               (let buf = secp256k1_fe_get_b32 (ge_x pk);
                                    e = secp256k1_schnorrsig_challenge (take 32 (the sig64))
                                          (msg_bytes msg msglen) buf;
                                    e = secp256k1_scalar_negate e;
                                    pkj = secp256k1_gej_set_ge pk;
                                    rj = ecmult pkj e s;
                                    r = secp256k1_ge_set_gej_var rj
                                in if secp256k1_ge_is_infinity r \<noteq> 0 then Inr 0
                                   else
                                     (let r = r\<lparr>ge_y := secp256k1_fe_normalize_var (ge_y r)\<rparr>
                                      in Inr (of_bool (secp256k1_fe_is_odd (ge_y r) = 0 \<and>
                                                       secp256k1_fe_equal rx (ge_x r) \<noteq> 0)))))))))"

section \<open>Mathematical reference values\<close>

text \<open>The curve order \<open>n\<close> and the field prime \<open>p\<close>.\<close>

definition secp256k1_n :: nat where
  "secp256k1_n = 0xFFFFFFFFFFFFFFFFFFFFFFFFFFFFFFFEBAAEDCE6AF48A03BBFD25E8CD0364141"

definition secp256k1_p :: nat where
  "secp256k1_p = 2 ^ 256 - 2 ^ 32 - 977"

text \<open>The big-endian integer held in a byte string.\<close>

fun be_val_acc :: "nat \<Rightarrow> u8 list \<Rightarrow> nat" where
  "be_val_acc a [] = a"
| "be_val_acc a (b # bs) = be_val_acc (256 * a + unat b) bs"

definition be_val :: "u8 list \<Rightarrow> nat" where
  "be_val bs = be_val_acc 0 bs"

text \<open>The integer represented by the four 64-bit limbs of a scalar.\<close>

definition scalar_val :: "secp256k1_scalar \<Rightarrow> nat" where
  "scalar_val a = unat (sd0 a) + 2 ^ 64 * unat (sd1 a) + 2 ^ 128 * unat (sd2 a) + 2 ^ 192 * unat (sd3 a)"

text \<open>The integer represented by the five 52-bit limbs of a field element, and the residue
  modulo \<open>p\<close> it stands for.\<close>

definition fe_val :: "secp256k1_fe \<Rightarrow> nat" where
  "fe_val a = unat (fn0 a) + 2 ^ 52 * unat (fn1 a) + 2 ^ 104 * unat (fn2 a) +
              2 ^ 156 * unat (fn3 a) + 2 ^ 208 * unat (fn4 a)"

text \<open>The coordinates of the generator \<open>G\<close>.\<close>

definition secp256k1_Gx :: nat where
  "secp256k1_Gx = 0x79BE667EF9DCBBAC55A06295CE870B07029BFCDB2DCE28D959F2815B16F81798"

definition secp256k1_Gy :: nat where
  "secp256k1_Gy = 0x483ADA7726A3C4655DA4FBFC0E1108A8FD17B448A68554199C47D08FFB10D4B8"

text \<open>Instances for the two multiplication routines whose bodies the source leaves empty:
  functions that leave a given point in the result.\<close>

definition ecmult_const ::
  "secp256k1_gej \<Rightarrow> secp256k1_gej \<Rightarrow> secp256k1_scalar \<Rightarrow> secp256k1_scalar \<Rightarrow> secp256k1_gej" where
  "ecmult_const r a na ng = r"

definition ecmult_gen_const ::
  "secp256k1_gej \<Rightarrow> secp256k1_context \<Rightarrow> secp256k1_scalar \<Rightarrow> secp256k1_gej" where
  "ecmult_gen_const r ctx gn = r"





section \<open>Word lemmas\<close>

lemma bit_imp_le_unat:
  fixes x :: "'a::len word"
  assumes "bit x m"
  shows "2 ^ m \<le> unat x"
proof -
  have "bit (unat x) m" using assms by (simp add: bit_unsigned_iff)
  then have "odd (unat x div 2 ^ m)" by (simp add: bit_iff_odd)
  then have "unat x div 2 ^ m \<noteq> 0" by (metis even_zero)
  then show ?thesis by (metis div_less not_le)
qed

lemma and_push_bit_small:
  fixes x y :: "'a::len word"
  assumes "unat x < 2 ^ n"
  shows "push_bit n y AND x = 0"
proof (rule bit_word_eqI)
  fix m assume "m < LENGTH('a)"
  have "\<not> (bit x m \<and> n \<le> m)"
  proof
    assume h: "bit x m \<and> n \<le> m"
    then have "2 ^ m \<le> unat x" by (simp add: bit_imp_le_unat)
    moreover have "(2::nat) ^ n \<le> 2 ^ m" using h by simp
    ultimately show False using assms by linarith
  qed
  then show "bit (push_bit n y AND x) m = bit (0::'a word) m"
    by (auto simp: bit_simps)
qed

lemma unat_or_push:
  fixes x y :: "'a::len word"
  assumes "unat x < 2 ^ n"
  shows "unat (push_bit n y OR x) = unat (push_bit n y) + unat x"
proof -
  have "push_bit n y AND x = 0" using assms by (rule and_push_bit_small)
  then have "unat (push_bit n y) AND unat x = 0"
    by (metis unsigned_and_eq unsigned_0)
  then have "unat (push_bit n y) + unat x = unat (push_bit n y) OR unat x"
    by (rule disjunctive_add_eq_or)
  then show ?thesis by (simp add: unsigned_or_eq)
qed

lemma unat_ucast_up:
  fixes b :: "'b::len word"
  assumes "LENGTH('b) \<le> LENGTH('a)"
  shows "unat (ucast b :: 'a::len word) = unat b"
proof -
  have "unat b < 2 ^ LENGTH('b)" by simp
  also have "(2::nat) ^ LENGTH('b) \<le> 2 ^ LENGTH('a)" using assms by simp
  finally show ?thesis by (simp add: unsigned_ucast_eq take_bit_nat_eq_self_iff)
qed

lemma unat_push_bit_ucast:
  fixes b :: "'b::len word"
  assumes "n + LENGTH('b) \<le> LENGTH('a)"
  shows "unat (push_bit n (ucast b :: 'a::len word)) = 2 ^ n * unat b"
proof -
  have lt: "unat b < 2 ^ LENGTH('b)" by simp
  have "2 ^ n * unat b < 2 ^ n * 2 ^ LENGTH('b)" using lt by simp
  also have "\<dots> = 2 ^ (n + LENGTH('b))" by (simp add: power_add)
  also have "\<dots> \<le> 2 ^ LENGTH('a)" using assms by simp
  finally have b2: "2 ^ n * unat b < 2 ^ LENGTH('a)" .
  have le: "LENGTH('b) \<le> LENGTH('a)" using assms by simp
  have "unat (push_bit n (ucast b :: 'a word)) = take_bit LENGTH('a) (push_bit n (unat (ucast b :: 'a word)))"
    by (rule unsigned_push_bit_eq)
  also have "\<dots> = take_bit LENGTH('a) (2 ^ n * unat b)"
    by (simp add: unat_ucast_up[OF le] push_bit_eq_mult mult.commute)
  also have "\<dots> = 2 ^ n * unat b"
    using b2 by (simp only: take_bit_nat_eq_self_iff)
  finally show ?thesis .
qed

lemma be_step:
  fixes b :: u8 and x :: "'a::len word"
  assumes "unat x < 2 ^ n" "n + 8 \<le> LENGTH('a)"
  shows "unat (push_bit n (ucast b) OR x) = 2 ^ n * unat b + unat x"
    and "unat (push_bit n (ucast b) OR x) < 2 ^ (n + 8)"
proof -
  show e: "unat (push_bit n (ucast b) OR x) = 2 ^ n * unat b + unat x"
    using assms by (simp add: unat_or_push unat_push_bit_ucast)
  have "unat b < 2 ^ 8" using unsigned_less[of b] by simp
  then have "unat b + 1 \<le> 2 ^ 8" by simp
  then have "2 ^ n * (unat b + 1) \<le> 2 ^ n * 2 ^ 8" by (rule mult_le_mono2)
  then have "2 ^ n * unat b + 2 ^ n \<le> 2 ^ (n + 8)" by (simp add: power_add)
  then show "unat (push_bit n (ucast b) OR x) < 2 ^ (n + 8)"
    using e assms(1) by linarith
qed

lemma unat_ucast_u8_lt: "unat (ucast (b::u8) :: 'a::len word) < 2 ^ 8"
proof -
  have "unat (ucast b :: 'a word) \<le> unat b"
    by (simp add: unsigned_ucast_eq take_bit_nat_less_eq_self)
  moreover have "unat b < 2 ^ 8" using unsigned_less[of b] by simp
  ultimately show ?thesis by linarith
qed

lemma unat_read_be64:
  "unat (secp256k1_read_be64 p i) =
     2 ^ 56 * unat (p ! i) + 2 ^ 48 * unat (p ! (i + 1)) + 2 ^ 40 * unat (p ! (i + 2)) +
     2 ^ 32 * unat (p ! (i + 3)) + 2 ^ 24 * unat (p ! (i + 4)) + 2 ^ 16 * unat (p ! (i + 5)) +
     2 ^ 8 * unat (p ! (i + 6)) + unat (p ! (i + 7))"
proof -
  let ?b = "\<lambda>k. (ucast (p ! (i + k)) :: u64)"
  have b7: "unat (?b 7) < 2 ^ 8" by (rule unat_ucast_u8_lt)
  have u7: "unat (?b 7) = unat (p ! (i + 7))" by (simp add: unat_ucast_up)
  note s6 = be_step[OF b7, of "p ! (i + 6)"]
  note s5 = be_step[OF s6(2), of "p ! (i + 5)"]
  note s4 = be_step[OF s5(2), of "p ! (i + 4)"]
  note s3 = be_step[OF s4(2), of "p ! (i + 3)"]
  note s2 = be_step[OF s3(2), of "p ! (i + 2)"]
  note s1 = be_step[OF s2(2), of "p ! (i + 1)"]
  note s0 = be_step[OF s1(2), of "p ! i"]
  show ?thesis
    unfolding secp256k1_read_be64_def
    using s0(1) s1(1) s2(1) s3(1) s4(1) s5(1) s6(1) u7 by simp
qed

section \<open>Scalars: parsing, overflow and zero test\<close>

lemma be_val_acc_shift: "be_val_acc a ys = a * 256 ^ length ys + be_val_acc 0 ys"
proof (induction ys arbitrary: a)
  case Nil show ?case by simp
next
  case (Cons y ys)
  have "be_val_acc (256 * a + unat y) ys = (256 * a + unat y) * 256 ^ length ys + be_val_acc 0 ys"
    by (rule Cons.IH)
  moreover have "be_val_acc (unat y) ys = unat y * 256 ^ length ys + be_val_acc 0 ys"
    by (rule Cons.IH)
  ultimately show ?case by (simp add: add_mult_distrib)
qed

lemma be_val_acc_append: "be_val_acc a (xs @ ys) = be_val_acc (be_val_acc a xs) ys"
  by (induction xs arbitrary: a) simp_all

lemma be_val_append: "be_val (xs @ ys) = be_val xs * 256 ^ length ys + be_val ys"
  unfolding be_val_def by (simp add: be_val_acc_append be_val_acc_shift[of "be_val_acc 0 xs"])

lemma take8_drop:
  assumes "i + 8 \<le> length p"
  shows "take 8 (drop i p) = [p ! i, p ! (i + 1), p ! (i + 2), p ! (i + 3), p ! (i + 4), p ! (i + 5), p ! (i + 6), p ! (i + 7)]"
proof (rule nth_equalityI)
  show "length (take 8 (drop i p)) = length [p ! i, p ! (i + 1), p ! (i + 2), p ! (i + 3), p ! (i + 4), p ! (i + 5), p ! (i + 6), p ! (i + 7)]"
    using assms by simp
next
  fix k assume "k < length (take 8 (drop i p))"
  then have k: "k < 8" by simp
  then consider "k = 0" | "k = 1" | "k = 2" | "k = 3" | "k = 4" | "k = 5" | "k = 6" | "k = 7"
    by linarith
  then show "take 8 (drop i p) ! k = [p ! i, p ! (i + 1), p ! (i + 2), p ! (i + 3), p ! (i + 4), p ! (i + 5), p ! (i + 6), p ! (i + 7)] ! k"
    using assms by cases simp_all
qed

lemma unat_read_be64_be_val:
  assumes "i + 8 \<le> length p"
  shows "unat (secp256k1_read_be64 p i) = be_val (take 8 (drop i p))"
  by (simp add: take8_drop[OF assms] unat_read_be64 be_val_def)

lemma be_val_32_split:
  assumes "length b = 32"
  shows "be_val b = 2 ^ 192 * be_val (take 8 (drop 0 b)) + 2 ^ 128 * be_val (take 8 (drop 8 b)) +
                    2 ^ 64 * be_val (take 8 (drop 16 b)) + be_val (take 8 (drop 24 b))"
proof -
  have "b = take 8 (drop 0 b) @ take 8 (drop 8 b) @ take 8 (drop 16 b) @ take 8 (drop 24 b)"
  proof -
    have 1: "take 8 b @ drop 8 b = b" by (rule append_take_drop_id)
    have d2: "drop 8 (drop 8 b) = drop 16 b" by simp
    have "take 8 (drop 8 b) @ drop 8 (drop 8 b) = drop 8 b" by (rule append_take_drop_id)
    then have 2: "take 8 (drop 8 b) @ drop 16 b = drop 8 b" by (simp only: d2)
    have d3: "drop 8 (drop 16 b) = drop 24 b" by simp
    have "take 8 (drop 16 b) @ drop 8 (drop 16 b) = drop 16 b" by (rule append_take_drop_id)
    then have 3: "take 8 (drop 16 b) @ drop 24 b = drop 16 b" by (simp only: d3)
    have 4: "take 8 (drop 24 b) = drop 24 b" using assms by simp
    have "take 8 (drop 0 b) @ take 8 (drop 8 b) @ take 8 (drop 16 b) @ take 8 (drop 24 b) = b"
      by (simp only: 4 3 2 1 drop_0)
    then show ?thesis by (rule sym)
  qed
  then have "be_val b = be_val (take 8 (drop 0 b) @ take 8 (drop 8 b) @ take 8 (drop 16 b) @ take 8 (drop 24 b))"
    by simp
  also have "\<dots> = 2 ^ 192 * be_val (take 8 (drop 0 b)) + 2 ^ 128 * be_val (take 8 (drop 8 b)) +
                    2 ^ 64 * be_val (take 8 (drop 16 b)) + be_val (take 8 (drop 24 b))"
    using assms by (simp only: be_val_append) simp
  finally show ?thesis .
qed

lemma scalar_val_read:
  assumes "length b = 32"
  shows "scalar_val \<lparr>sd0 = secp256k1_read_be64 b 24, sd1 = secp256k1_read_be64 b 16,
                sd2 = secp256k1_read_be64 b 8, sd3 = secp256k1_read_be64 b 0\<rparr> = be_val b"
  using assms by (simp add: scalar_val_def unat_read_be64_be_val be_val_32_split)

lemma secp256k1_n_limbs:
  "secp256k1_n = unat SECP256K1_N_0 + 2 ^ 64 * unat SECP256K1_N_1 + 2 ^ 128 * unat SECP256K1_N_2 + 2 ^ 192 * unat SECP256K1_N_3"
  by (simp add: secp256k1_n_def SECP256K1_N_0_def SECP256K1_N_1_def SECP256K1_N_2_def SECP256K1_N_3_def)

lemma check_overflow_correct:
  "secp256k1_scalar_check_overflow a = of_bool (secp256k1_n \<le> scalar_val a)"
proof -
  have b0: "unat (sd0 a) < 2 ^ 64" and b1: "unat (sd1 a) < 2 ^ 64"
    and b2: "unat (sd2 a) < 2 ^ 64" and b3: "unat (sd3 a) < 2 ^ 64"
    using unsigned_less[of "sd0 a"] unsigned_less[of "sd1 a"] unsigned_less[of "sd2 a"] unsigned_less[of "sd3 a"]
    by simp_all
  show ?thesis
    unfolding secp256k1_scalar_check_overflow_def Let_def
    using b0 b1 b2 b3
    by (simp add: word_less_nat_alt word_le_nat_alt SECP256K1_N_0_def SECP256K1_N_1_def SECP256K1_N_2_def SECP256K1_N_3_def
        scalar_val_def secp256k1_n_def of_bool_def)
qed

lemma u128_lo_hi [simp]:
  "secp256k1_u128_to_u64 (secp256k1_u128_from_u64 x) = x"
  "secp256k1_u128_rshift (secp256k1_u128_from_u64 x) 64 = 0"
   apply (simp_all add: secp256k1_u128_to_u64_def secp256k1_u128_from_u64_def secp256k1_u128_rshift_def)
  subgoal by (rule bit_word_eqI) (simp add: bit_simps)
  subgoal by (rule bit_word_eqI) (auto simp add: bit_simps dest: bit_imp_le_length)
  done

lemma u128_accum_0 [simp]:
  "secp256k1_u128_accum_u64 t 0 = t"
  "secp256k1_u128_accum_u64 0 x = secp256k1_u128_from_u64 x"
  by (simp_all add: secp256k1_u128_accum_u64_def secp256k1_u128_from_u64_def)

lemma scalar_reduce_0: "secp256k1_scalar_reduce r 0 = (r, 0)"
  unfolding secp256k1_scalar_reduce_def Let_def
  by simp

lemma scalar_is_zero_correct:
  "secp256k1_scalar_is_zero a = of_bool (scalar_val a = 0)"
proof -
  have "(sd0 a OR sd1 a OR sd2 a OR sd3 a) = 0 \<longleftrightarrow> sd0 a = 0 \<and> sd1 a = 0 \<and> sd2 a = 0 \<and> sd3 a = 0"
    by (simp add: or_eq_0_iff)
  moreover have "scalar_val a = 0 \<longleftrightarrow> sd0 a = 0 \<and> sd1 a = 0 \<and> sd2 a = 0 \<and> sd3 a = 0"
    by (simp add: scalar_val_def unsigned_eq_0_iff)
  ultimately show ?thesis by (simp add: secp256k1_scalar_is_zero_def)
qed

section \<open>Evaluation of word expressions on numerals\<close>

text \<open>Rewrite rules that keep word numerals reduced modulo the word size, so that
  concrete runs of the code can be evaluated by the simplifier.\<close>

lemma word_numeral_norm:
  "2 ^ LENGTH('a) \<le> (numeral k :: nat) \<Longrightarrow>
     (numeral k :: 'a::len word) = word_of_nat (take_bit LENGTH('a) (numeral k))"
  by (metis of_nat_numeral take_bit_of_nat unsigned_of_nat unsigned_numeral word_of_nat_eq_iff take_bit_take_bit min.idem)

lemma word_neg_numeral_norm:
  "(- numeral k :: 'a::len word) = word_of_int (take_bit LENGTH('a) (- numeral k))"
  by (metis of_int_neg_numeral word_of_int_eq_iff take_bit_take_bit min.idem)

lemma push_bit_word_numeral_eval:
  "push_bit n (numeral k :: 'a::len word) = word_of_nat (take_bit LENGTH('a) (push_bit n (numeral k)))"
  by (metis of_nat_numeral of_nat_push_bit take_bit_of_nat word_of_nat_eq_iff take_bit_take_bit min.idem unsigned_of_nat unsigned_numeral)

lemma replicate_numeral_eval: "replicate (numeral k) x = x # replicate (pred_numeral k) x"
  by (simp add: numeral_eq_Suc)

lemmas word_eval = word_numeral_norm word_neg_numeral_norm push_bit_word_numeral_eval

lemmas sha256_eval = secp256k1_sha256_transform_def secp256k1_read_be32_def Round_def
  Sigma0_def Sigma1_def sigma0_def sigma1_def Ch_def Maj_def Let_def

section \<open>SHA-256: evaluating the tagged-hash initialisation\<close>

lemmas sha256_io_eval = secp256k1_sha256_initialize_tagged_def secp256k1_sha256_initialize_def
  secp256k1_sha256_write_def secp256k1_sha256_finalize_def secp256k1_write_be32_def sha256_pad_def
  sha256_local_def replicate_numeral_eval

text \<open>The generic construction on the three tags: the state words are the midstate, the
  byte counter is 64, and the buffer holds the two copies of SHA-256(tag) that were hashed.\<close>

lemma initialize_tagged_aux:
  "secp256k1_sha256_initialize_tagged sha256_local bip340_tag_aux =
     \<lparr>sha_s = [0x24dd3219, 0x4eba7e70, 0xca0fabb9, 0x0fa3166d,
               0x3afbe4b1, 0x4c44df97, 0x4aac2739, 0x249e850a],
      sha_buf = [0xf1, 0xef, 0x4e, 0x5e, 0xc0, 0x63, 0xca, 0xda, 0x6d, 0x94, 0xca, 0xfa, 0x9d, 0x98, 0x7e, 0xa0,
                 0x69, 0x26, 0x58, 0x39, 0xec, 0xc1, 0x1f, 0x97, 0x2d, 0x77, 0xa5, 0x2e, 0xd8, 0xc1, 0xcc, 0x90,
                 0xf1, 0xef, 0x4e, 0x5e, 0xc0, 0x63, 0xca, 0xda, 0x6d, 0x94, 0xca, 0xfa, 0x9d, 0x98, 0x7e, 0xa0,
                 0x69, 0x26, 0x58, 0x39, 0xec, 0xc1, 0x1f, 0x97, 0x2d, 0x77, 0xa5, 0x2e, 0xd8, 0xc1, 0xcc, 0x90],
      sha_bytes = 64\<rparr>"
  by (simp add: sha256_io_eval bip340_tag_aux_def sha256_eval word_eval cong: let_weak_cong)

lemma initialize_tagged_nonce:
  "secp256k1_sha256_initialize_tagged sha256_local bip340_algo =
     \<lparr>sha_s = [0x46615b35, 0xf4bfbff7, 0x9f8dc671, 0x83627ab3,
               0x60217180, 0x57358661, 0x21a29e54, 0x68b07b4c],
      sha_buf = [0x07, 0x49, 0x77, 0x34, 0xa7, 0x9b, 0xcb, 0x35, 0x5b, 0x9b, 0x8c, 0x7d, 0x03, 0x4f, 0x12, 0x1c,
                 0xf4, 0x34, 0xd7, 0x3e, 0xf7, 0x2d, 0xda, 0x19, 0x87, 0x00, 0x61, 0xfb, 0x52, 0xbf, 0xeb, 0x2f,
                 0x07, 0x49, 0x77, 0x34, 0xa7, 0x9b, 0xcb, 0x35, 0x5b, 0x9b, 0x8c, 0x7d, 0x03, 0x4f, 0x12, 0x1c,
                 0xf4, 0x34, 0xd7, 0x3e, 0xf7, 0x2d, 0xda, 0x19, 0x87, 0x00, 0x61, 0xfb, 0x52, 0xbf, 0xeb, 0x2f],
      sha_bytes = 64\<rparr>"
  by (simp add: sha256_io_eval bip340_algo_def sha256_eval word_eval cong: let_weak_cong)

lemma initialize_tagged_challenge:
  "secp256k1_sha256_initialize_tagged sha256_local bip340_tag_challenge =
     \<lparr>sha_s = [0x9cecba11, 0x23925381, 0x11679112, 0xd1627e0f,
               0x97c87550, 0x003cc765, 0x90f61164, 0x33e9b66a],
      sha_buf = [0x7b, 0xb5, 0x2d, 0x7a, 0x9f, 0xef, 0x58, 0x32, 0x3e, 0xb1, 0xbf, 0x7a, 0x40, 0x7d, 0xb3, 0x82,
                 0xd2, 0xf3, 0xf2, 0xd8, 0x1b, 0xb1, 0x22, 0x4f, 0x49, 0xfe, 0x51, 0x8f, 0x6d, 0x48, 0xd3, 0x7c,
                 0x7b, 0xb5, 0x2d, 0x7a, 0x9f, 0xef, 0x58, 0x32, 0x3e, 0xb1, 0xbf, 0x7a, 0x40, 0x7d, 0xb3, 0x82,
                 0xd2, 0xf3, 0xf2, 0xd8, 0x1b, 0xb1, 0x22, 0x4f, 0x49, 0xfe, 0x51, 0x8f, 0x6d, 0x48, 0xd3, 0x7c],
      sha_bytes = 64\<rparr>"
  by (simp add: sha256_io_eval bip340_tag_challenge_def sha256_eval word_eval cong: let_weak_cong)

text \<open>TaggedHash("BIP0340/aux", 32 zero bytes), from the generic initialisation and from
  the midstate fastpath.\<close>

lemma tagged_hash_aux_zero_generic:
  "snd (secp256k1_sha256_finalize (secp256k1_sha256_write
     (secp256k1_sha256_initialize_tagged sha256_local bip340_tag_aux) (replicate 32 0))) = ZERO_MASK"
  unfolding initialize_tagged_aux
  by (simp add: sha256_io_eval ZERO_MASK_def sha256_eval word_eval cong: let_weak_cong)

lemma tagged_hash_aux_zero_fast:
  "snd (secp256k1_sha256_finalize (secp256k1_sha256_write
     (secp256k1_nonce_function_bip340_sha256_tagged_aux sha256_local) (replicate 32 0))) = ZERO_MASK"
  by (simp add: secp256k1_nonce_function_bip340_sha256_tagged_aux_def sha256_io_eval ZERO_MASK_def
      sha256_eval word_eval cong: let_weak_cong)

section \<open>Signing and verification: argument checks and the public-key load\<close>

text \<open>The copy in \<open>secp256k1_ge_from_bytes\<close> asks for 64 bytes and the destination holds 32:
  every call faults, and so does every function on its way.\<close>

lemma ge_from_bytes_fault: "secp256k1_ge_from_bytes buf = Inl Out_of_bounds_write"
  by (simp add: secp256k1_ge_from_bytes_def sizeof_secp256k1_ge_storage_def)

lemma pubkey_load_fault: "secp256k1_pubkey_load pubkey = Inl Out_of_bounds_write"
  by (simp add: secp256k1_pubkey_load_def ge_from_bytes_fault)

lemma xonly_pubkey_load_fault: "secp256k1_xonly_pubkey_load pubkey = Inl Out_of_bounds_write"
  by (simp add: secp256k1_xonly_pubkey_load_def pubkey_load_fault)

lemma keypair_load_fault: "secp256k1_keypair_load sk keypair = Inl Out_of_bounds_write"
  by (simp add: secp256k1_keypair_load_def pubkey_load_fault)

lemma sign_internal_arg_check:
  assumes "ecmult_gen_built ctx = 0 \<or> sig64 = None \<or> (msg = None \<and> msglen \<noteq> 0) \<or> keypair = None"
  shows "secp256k1_schnorrsig_sign_internal ecmult_gen ctx sig64 msg msglen keypair noncefp ndata
           = Inr (0, sig64)"
  using assms
  by (auto simp add: secp256k1_schnorrsig_sign_internal_def secp256k1_ecmult_gen_context_is_built_def)

lemma sign_internal_fault:
  assumes "ecmult_gen_built ctx \<noteq> 0" "sig64 \<noteq> None" "msg \<noteq> None \<or> msglen = 0" "keypair \<noteq> None"
  shows "secp256k1_schnorrsig_sign_internal ecmult_gen ctx sig64 msg msglen keypair noncefp ndata
           = Inl Out_of_bounds_write"
proof -
  have c: "secp256k1_ecmult_gen_context_is_built ctx \<noteq> 0"
    using assms(1) by (simp add: secp256k1_ecmult_gen_context_is_built_def)
  have m: "\<not> \<not> (msg \<noteq> None \<or> msglen = 0)" using assms(3) by simp
  show ?thesis
    unfolding secp256k1_schnorrsig_sign_internal_def keypair_load_fault
    by (simp only: c assms(2) assms(4) m if_False Let_def sum.case)
qed

lemma verify_arg_check:
  assumes "sig64 = None \<or> (msg = None \<and> msglen \<noteq> 0) \<or> pubkey = None"
  shows "secp256k1_schnorrsig_verify ecmult sig64 msg msglen pubkey = Inr 0"
  using assms by (auto simp add: secp256k1_schnorrsig_verify_def)

lemma verify_fault:
  assumes "sig64 \<noteq> None" "msg \<noteq> None \<or> msglen = 0" "pubkey \<noteq> None"
    and "snd (secp256k1_fe_set_b32_limit (take 32 (the sig64))) \<noteq> 0"
    and "snd (secp256k1_scalar_set_b32 (take 32 (drop 32 (the sig64)))) = 0"
  shows "secp256k1_schnorrsig_verify ecmult sig64 msg msglen pubkey = Inl Out_of_bounds_write"
proof -
  have m: "\<not> \<not> (msg \<noteq> None \<or> msglen = 0)" using assms(2) by simp
  have o: "\<not> snd (secp256k1_scalar_set_b32 (take 32 (drop 32 (the sig64)))) \<noteq> 0"
    using assms(5) by simp
  show ?thesis
    unfolding secp256k1_schnorrsig_verify_def xonly_pubkey_load_fault
    by (simp only: assms(1) assms(3) assms(4) m o if_False Let_def sum.case)
qed

lemma msg_bytes_null: "msg_bytes None 0 = msg_bytes (Some m) 0"
  by (simp add: msg_bytes_def)

lemma verify_null_msg:
  "secp256k1_schnorrsig_verify ecmult sig64 None 0 pubkey =
   secp256k1_schnorrsig_verify ecmult sig64 (Some m) 0 pubkey"
  unfolding secp256k1_schnorrsig_verify_def msg_bytes_null [of m] by simp

lemma sign_null_msg:
  "secp256k1_schnorrsig_sign_internal ecmult_gen ctx sig64 None 0 keypair noncefp ndata =
   secp256k1_schnorrsig_sign_internal ecmult_gen ctx sig64 (Some m) 0 keypair noncefp ndata"
  unfolding secp256k1_schnorrsig_sign_internal_def msg_bytes_null [of m] by simp

text \<open>The part of \<open>secp256k1_keypair_load\<close> after the public-key load, on a key pair of 96
  zero bytes: the secret key 0 is invalid, so the failure branch runs whatever the load
  has returned.\<close>

lemma read_be64_zero: "i + 8 \<le> n \<Longrightarrow> secp256k1_read_be64 (replicate n 0) i = 0"
  by (simp add: secp256k1_read_be64_def)

lemma seckey_load_zero: "snd (secp256k1_keypair_seckey_load (replicate 96 0)) = 0"
proof -
  have t: "take 32 (replicate 96 (0::u8)) = replicate 32 0" by simp
  have z: "scalar_val \<lparr>sd0 = 0, sd1 = 0, sd2 = 0, sd3 = 0\<rparr> = 0" by (simp add: scalar_val_def)
  have c: "secp256k1_scalar_check_overflow \<lparr>sd0 = 0, sd1 = 0, sd2 = 0, sd3 = 0\<rparr> = 0"
    unfolding check_overflow_correct z by (simp add: secp256k1_n_def)
  have s: "secp256k1_scalar_set_b32 (replicate 32 0) = (\<lparr>sd0 = 0, sd1 = 0, sd2 = 0, sd3 = 0\<rparr>, 0)"
    by (simp add: secp256k1_scalar_set_b32_def Let_def read_be64_zero c scalar_reduce_0)
  show ?thesis
    unfolding secp256k1_keypair_seckey_load_def t
    by (simp add: secp256k1_scalar_set_b32_seckey_def Let_def s scalar_is_zero_correct z)
qed

lemma keypair_load_rest_zero:
  "secp256k1_keypair_load_rest (Some sk) (replicate 96 0) pl
     = (0, Some secp256k1_scalar_one, secp256k1_ge_const_g)"
  unfolding secp256k1_keypair_load_rest_def
  by (simp add: Let_def seckey_load_zero)

section \<open>Field elements: parsing with range check\<close>

lemma unat_or_disjoint:
  fixes x y :: "'a::len word"
  assumes "x AND y = 0"
  shows "unat (x OR y) = unat x + unat y"
proof -
  have "unat x AND unat y = 0"
    using assms by (metis unsigned_and_eq unsigned_0)
  then have "unat x + unat y = unat x OR unat y"
    by (rule disjunctive_add_eq_or)
  then show ?thesis by (simp add: unsigned_or_eq)
qed

lemma unat_le7:
  fixes b0 b1 b2 b3 b4 b5 b6 :: u8
  shows "unat (ucast b0 OR push_bit 8 (ucast b1) OR push_bit 16 (ucast b2) OR push_bit 24 (ucast b3) OR
            push_bit 32 (ucast b4) OR push_bit 40 (ucast b5) OR push_bit 48 (ucast b6) :: u64)
         = unat b0 + 2 ^ 8 * unat b1 + 2 ^ 16 * unat b2 + 2 ^ 24 * unat b3 + 2 ^ 32 * unat b4 +
           2 ^ 40 * unat b5 + 2 ^ 48 * unat b6"
proof -
  have d5: "(push_bit 40 (ucast b5) :: u64) AND push_bit 48 (ucast b6) = 0"
    by (rule bit_word_eqI) (auto simp: bit_simps dest: bit_imp_le_length)
  have d4: "(push_bit 32 (ucast b4) :: u64) AND (push_bit 40 (ucast b5) OR push_bit 48 (ucast b6)) = 0"
    by (rule bit_word_eqI) (auto simp: bit_simps dest: bit_imp_le_length)
  have d3: "(push_bit 24 (ucast b3) :: u64) AND (push_bit 32 (ucast b4) OR push_bit 40 (ucast b5) OR push_bit 48 (ucast b6)) = 0"
    by (rule bit_word_eqI) (auto simp: bit_simps dest: bit_imp_le_length)
  have d2: "(push_bit 16 (ucast b2) :: u64) AND (push_bit 24 (ucast b3) OR push_bit 32 (ucast b4) OR push_bit 40 (ucast b5) OR push_bit 48 (ucast b6)) = 0"
    by (rule bit_word_eqI) (auto simp: bit_simps dest: bit_imp_le_length)
  have d1: "(push_bit 8 (ucast b1) :: u64) AND (push_bit 16 (ucast b2) OR push_bit 24 (ucast b3) OR push_bit 32 (ucast b4) OR push_bit 40 (ucast b5) OR push_bit 48 (ucast b6)) = 0"
    by (rule bit_word_eqI) (auto simp: bit_simps dest: bit_imp_le_length)
  have d0: "(ucast b0 :: u64) AND (push_bit 8 (ucast b1) OR push_bit 16 (ucast b2) OR push_bit 24 (ucast b3) OR push_bit 32 (ucast b4) OR push_bit 40 (ucast b5) OR push_bit 48 (ucast b6)) = 0"
    by (rule bit_word_eqI) (auto simp: bit_simps dest: bit_imp_le_length)
  show ?thesis
    by (simp add: unat_or_disjoint d0 d1 d2 d3 d4 d5 unat_push_bit_ucast unat_ucast_up)
qed

lemma unat_le7_nibble:
  fixes b0 b1 b2 b3 b4 b5 b6 :: u8
  shows "unat (ucast (take_bit 4 b0) OR push_bit 4 (ucast b1) OR push_bit 12 (ucast b2) OR push_bit 20 (ucast b3) OR
            push_bit 28 (ucast b4) OR push_bit 36 (ucast b5) OR push_bit 44 (ucast b6) :: u64)
         = unat (take_bit 4 b0) + 2 ^ 4 * unat b1 + 2 ^ 12 * unat b2 + 2 ^ 20 * unat b3 + 2 ^ 28 * unat b4 +
           2 ^ 36 * unat b5 + 2 ^ 44 * unat b6"
proof -
  have d5: "(push_bit 36 (ucast b5) :: u64) AND push_bit 44 (ucast b6) = 0"
    by (rule bit_word_eqI) (auto simp: bit_simps dest: bit_imp_le_length)
  have d4: "(push_bit 28 (ucast b4) :: u64) AND (push_bit 36 (ucast b5) OR push_bit 44 (ucast b6)) = 0"
    by (rule bit_word_eqI) (auto simp: bit_simps dest: bit_imp_le_length)
  have d3: "(push_bit 20 (ucast b3) :: u64) AND (push_bit 28 (ucast b4) OR push_bit 36 (ucast b5) OR push_bit 44 (ucast b6)) = 0"
    by (rule bit_word_eqI) (auto simp: bit_simps dest: bit_imp_le_length)
  have d2: "(push_bit 12 (ucast b2) :: u64) AND (push_bit 20 (ucast b3) OR push_bit 28 (ucast b4) OR push_bit 36 (ucast b5) OR push_bit 44 (ucast b6)) = 0"
    by (rule bit_word_eqI) (auto simp: bit_simps dest: bit_imp_le_length)
  have d1: "(push_bit 4 (ucast b1) :: u64) AND (push_bit 12 (ucast b2) OR push_bit 20 (ucast b3) OR push_bit 28 (ucast b4) OR push_bit 36 (ucast b5) OR push_bit 44 (ucast b6)) = 0"
    by (rule bit_word_eqI) (auto simp: bit_simps dest: bit_imp_le_length)
  have d0: "(ucast (take_bit 4 b0) :: u64) AND (push_bit 4 (ucast b1) OR push_bit 12 (ucast b2) OR push_bit 20 (ucast b3) OR push_bit 28 (ucast b4) OR push_bit 36 (ucast b5) OR push_bit 44 (ucast b6)) = 0"
    by (rule bit_word_eqI) (auto simp: bit_simps dest: bit_imp_le_length)
  show ?thesis
    by (simp add: unat_or_disjoint d0 d1 d2 d3 d4 d5 unat_push_bit_ucast unat_ucast_up)
qed

lemma unat_le6:
  fixes b0 b1 b2 b3 b4 b5 :: u8
  shows "unat (ucast b0 OR push_bit 8 (ucast b1) OR push_bit 16 (ucast b2) OR push_bit 24 (ucast b3) OR
            push_bit 32 (ucast b4) OR push_bit 40 (ucast b5) :: u64)
         = unat b0 + 2 ^ 8 * unat b1 + 2 ^ 16 * unat b2 + 2 ^ 24 * unat b3 + 2 ^ 32 * unat b4 +
           2 ^ 40 * unat b5"
proof -
  have d4: "(push_bit 32 (ucast b4) :: u64) AND (push_bit 40 (ucast b5)) = 0"
    by (rule bit_word_eqI) (auto simp: bit_simps dest: bit_imp_le_length)
  have d3: "(push_bit 24 (ucast b3) :: u64) AND (push_bit 32 (ucast b4) OR push_bit 40 (ucast b5)) = 0"
    by (rule bit_word_eqI) (auto simp: bit_simps dest: bit_imp_le_length)
  have d2: "(push_bit 16 (ucast b2) :: u64) AND (push_bit 24 (ucast b3) OR push_bit 32 (ucast b4) OR push_bit 40 (ucast b5)) = 0"
    by (rule bit_word_eqI) (auto simp: bit_simps dest: bit_imp_le_length)
  have d1: "(push_bit 8 (ucast b1) :: u64) AND (push_bit 16 (ucast b2) OR push_bit 24 (ucast b3) OR push_bit 32 (ucast b4) OR push_bit 40 (ucast b5)) = 0"
    by (rule bit_word_eqI) (auto simp: bit_simps dest: bit_imp_le_length)
  have d0: "(ucast b0 :: u64) AND (push_bit 8 (ucast b1) OR push_bit 16 (ucast b2) OR push_bit 24 (ucast b3) OR push_bit 32 (ucast b4) OR push_bit 40 (ucast b5)) = 0"
    by (rule bit_word_eqI) (auto simp: bit_simps dest: bit_imp_le_length)
  show ?thesis
    by (simp add: unat_or_disjoint d0 d1 d2 d3 d4 unat_push_bit_ucast unat_ucast_up)
qed

lemma u8_and_0xF: "(b :: u8) AND 0xF = take_bit 4 b"
proof -
  have "(0xF :: u8) = mask 4" by (simp add: mask_eq_exp_minus_1)
  then show ?thesis by (simp add: take_bit_eq_mask)
qed

lemma unat_low_nibble: "unat (take_bit 4 (b :: u8)) = unat b mod 16"
  by (simp add: take_bit_eq_mod unat_mod_distrib)

lemma unat_high_nibble: "unat (take_bit 4 (drop_bit 4 (b :: u8))) = unat b div 16"
proof -
  have "unat b < 256" using unsigned_less[of b] by simp
  then have "unat b div 16 < 16" by simp
  then show ?thesis
    by (simp add: take_bit_eq_mod drop_bit_eq_div unat_mod_distrib unat_div_distrib)
qed

lemma list32_explicit:
  assumes "length (a :: 'a list) = 32"
  shows "a = [a ! 0, a ! 1, a ! 2, a ! 3, a ! 4, a ! 5, a ! 6, a ! 7, a ! 8, a ! 9, a ! 10, a ! 11,
              a ! 12, a ! 13, a ! 14, a ! 15, a ! 16, a ! 17, a ! 18, a ! 19, a ! 20, a ! 21, a ! 22,
              a ! 23, a ! 24, a ! 25, a ! 26, a ! 27, a ! 28, a ! 29, a ! 30, a ! 31]"
  using assms by (intro nth_equalityI) (auto simp: less_Suc_eq numeral_eq_Suc)

lemma unat_le7_high:
  fixes b0 b1 b2 b3 b4 b5 b6 :: u8
  shows "unat (ucast (drop_bit 4 b0 AND 0xF) OR push_bit 4 (ucast b1) OR push_bit 12 (ucast b2) OR push_bit 20 (ucast b3) OR
            push_bit 28 (ucast b4) OR push_bit 36 (ucast b5) OR push_bit 44 (ucast b6) :: u64)
         = unat b0 div 16 + 2 ^ 4 * unat b1 + 2 ^ 12 * unat b2 + 2 ^ 20 * unat b3 + 2 ^ 28 * unat b4 +
           2 ^ 36 * unat b5 + 2 ^ 44 * unat b6"
  by (simp only: u8_and_0xF unat_le7_nibble unat_high_nibble)

lemma unat_le7_low:
  fixes b0 b1 b2 b3 b4 b5 b6 :: u8
  shows "unat (ucast b0 OR push_bit 8 (ucast b1) OR push_bit 16 (ucast b2) OR push_bit 24 (ucast b3) OR
            push_bit 32 (ucast b4) OR push_bit 40 (ucast b5) OR push_bit 48 (ucast (b6 AND 0xF)) :: u64)
         = unat b0 + 2 ^ 8 * unat b1 + 2 ^ 16 * unat b2 + 2 ^ 24 * unat b3 + 2 ^ 32 * unat b4 +
           2 ^ 40 * unat b5 + 2 ^ 48 * (unat b6 mod 16)"
  by (simp only: u8_and_0xF unat_le7 unat_low_nibble)

lemma fe_set_b32_mod_limbs:
  "unat (fn0 (secp256k1_fe_set_b32_mod a)) = unat (a ! 31) + 2 ^ 8 * unat (a ! 30) + 2 ^ 16 * unat (a ! 29) +
      2 ^ 24 * unat (a ! 28) + 2 ^ 32 * unat (a ! 27) + 2 ^ 40 * unat (a ! 26) + 2 ^ 48 * (unat (a ! 25) mod 16)"
  "unat (fn1 (secp256k1_fe_set_b32_mod a)) = unat (a ! 25) div 16 + 2 ^ 4 * unat (a ! 24) + 2 ^ 12 * unat (a ! 23) +
      2 ^ 20 * unat (a ! 22) + 2 ^ 28 * unat (a ! 21) + 2 ^ 36 * unat (a ! 20) + 2 ^ 44 * unat (a ! 19)"
  "unat (fn2 (secp256k1_fe_set_b32_mod a)) = unat (a ! 18) + 2 ^ 8 * unat (a ! 17) + 2 ^ 16 * unat (a ! 16) +
      2 ^ 24 * unat (a ! 15) + 2 ^ 32 * unat (a ! 14) + 2 ^ 40 * unat (a ! 13) + 2 ^ 48 * (unat (a ! 12) mod 16)"
  "unat (fn3 (secp256k1_fe_set_b32_mod a)) = unat (a ! 12) div 16 + 2 ^ 4 * unat (a ! 11) + 2 ^ 12 * unat (a ! 10) +
      2 ^ 20 * unat (a ! 9) + 2 ^ 28 * unat (a ! 8) + 2 ^ 36 * unat (a ! 7) + 2 ^ 44 * unat (a ! 6)"
  "unat (fn4 (secp256k1_fe_set_b32_mod a)) = unat (a ! 5) + 2 ^ 8 * unat (a ! 4) + 2 ^ 16 * unat (a ! 3) +
      2 ^ 24 * unat (a ! 2) + 2 ^ 32 * unat (a ! 1) + 2 ^ 40 * unat (a ! 0)"
  unfolding secp256k1_fe_set_b32_mod_def
  by (simp_all only: secp256k1_fe.simps unat_le7_low unat_le7_high unat_le6)

lemma fe_set_b32_mod_bounds:
  "unat (fn0 (secp256k1_fe_set_b32_mod a)) < 2 ^ 52"
  "unat (fn1 (secp256k1_fe_set_b32_mod a)) < 2 ^ 52"
  "unat (fn2 (secp256k1_fe_set_b32_mod a)) < 2 ^ 52"
  "unat (fn3 (secp256k1_fe_set_b32_mod a)) < 2 ^ 52"
  "unat (fn4 (secp256k1_fe_set_b32_mod a)) < 2 ^ 48"
proof -
  have b: "\<And>i. unat (a ! i) < 256" 
  proof -
    fix i show "unat (a ! i) < 256" using unsigned_less[of "a ! i"] by simp
  qed
  have m: "\<And>i. unat (a ! i) mod 16 < 16" by simp
  have d: "\<And>i. unat (a ! i) div 16 < 16" using b by (simp add: less_mult_imp_div_less)
  show "unat (fn0 (secp256k1_fe_set_b32_mod a)) < 2 ^ 52"
    unfolding fe_set_b32_mod_limbs
    using b[of 31] b[of 30] b[of 29] b[of 28] b[of 27] b[of 26] m[of 25] by simp
  show "unat (fn1 (secp256k1_fe_set_b32_mod a)) < 2 ^ 52"
    unfolding fe_set_b32_mod_limbs
    using d[of 25] b[of 24] b[of 23] b[of 22] b[of 21] b[of 20] b[of 19] by simp
  show "unat (fn2 (secp256k1_fe_set_b32_mod a)) < 2 ^ 52"
    unfolding fe_set_b32_mod_limbs
    using b[of 18] b[of 17] b[of 16] b[of 15] b[of 14] b[of 13] m[of 12] by simp
  show "unat (fn3 (secp256k1_fe_set_b32_mod a)) < 2 ^ 52"
    unfolding fe_set_b32_mod_limbs
    using d[of 12] b[of 11] b[of 10] b[of 9] b[of 8] b[of 7] b[of 6] by simp
  show "unat (fn4 (secp256k1_fe_set_b32_mod a)) < 2 ^ 48"
    unfolding fe_set_b32_mod_limbs
    using b[of 5] b[of 4] b[of 3] b[of 2] b[of 1] b[of 0] by simp
qed

lemma be_val_32_explicit:
  "be_val [b0, b1, b2, b3, b4, b5, b6, b7, b8, b9, b10, b11, b12, b13, b14, b15, b16, b17, b18,
           b19, b20, b21, b22, b23, b24, b25, b26, b27, b28, b29, b30, b31] =
   unat b31 + 2 ^ 8 * unat b30 + 2 ^ 16 * unat b29 + 2 ^ 24 * unat b28 + 2 ^ 32 * unat b27 +
   2 ^ 40 * unat b26 + 2 ^ 48 * unat b25 + 2 ^ 56 * unat b24 + 2 ^ 64 * unat b23 + 2 ^ 72 * unat b22 +
   2 ^ 80 * unat b21 + 2 ^ 88 * unat b20 + 2 ^ 96 * unat b19 + 2 ^ 104 * unat b18 + 2 ^ 112 * unat b17 +
   2 ^ 120 * unat b16 + 2 ^ 128 * unat b15 + 2 ^ 136 * unat b14 + 2 ^ 144 * unat b13 + 2 ^ 152 * unat b12 +
   2 ^ 160 * unat b11 + 2 ^ 168 * unat b10 + 2 ^ 176 * unat b9 + 2 ^ 184 * unat b8 + 2 ^ 192 * unat b7 +
   2 ^ 200 * unat b6 + 2 ^ 208 * unat b5 + 2 ^ 216 * unat b4 + 2 ^ 224 * unat b3 + 2 ^ 232 * unat b2 +
   2 ^ 240 * unat b1 + 2 ^ 248 * unat b0"
  by (simp add: be_val_def)

lemma fe_val_set_b32_mod:
  assumes "length a = 32"
  shows "fe_val (secp256k1_fe_set_b32_mod a) = be_val a"
proof -
  have e25: "unat (a ! 25) = 16 * (unat (a ! 25) div 16) + unat (a ! 25) mod 16" by simp
  have e12: "unat (a ! 12) = 16 * (unat (a ! 12) div 16) + unat (a ! 12) mod 16" by simp
  define h25 where "h25 = unat (a ! 25) div 16"
  define l25 where "l25 = unat (a ! 25) mod 16"
  define h12 where "h12 = unat (a ! 12) div 16"
  define l12 where "l12 = unat (a ! 12) mod 16"
  have "be_val a = be_val [a ! 0, a ! 1, a ! 2, a ! 3, a ! 4, a ! 5, a ! 6, a ! 7, a ! 8, a ! 9, a ! 10, a ! 11,
              a ! 12, a ! 13, a ! 14, a ! 15, a ! 16, a ! 17, a ! 18, a ! 19, a ! 20, a ! 21, a ! 22,
              a ! 23, a ! 24, a ! 25, a ! 26, a ! 27, a ! 28, a ! 29, a ! 30, a ! 31]"
    using list32_explicit[OF assms] by simp
  also have "\<dots> = fe_val (secp256k1_fe_set_b32_mod a)"
    unfolding be_val_32_explicit fe_val_def fe_set_b32_mod_limbs
    unfolding h25_def[symmetric] l25_def[symmetric] h12_def[symmetric] l12_def[symmetric]
    using e25 e12 unfolding h25_def[symmetric] l25_def[symmetric] h12_def[symmetric] l12_def[symmetric]
    by simp
  finally show ?thesis by simp
qed

lemma and3_full:
  fixes x y z :: u64
  assumes "unat x < 2 ^ 52" "unat y < 2 ^ 52" "unat z < 2 ^ 52"
  shows "(z AND y AND x) = 0xFFFFFFFFFFFFF \<longleftrightarrow>
         unat x = 2 ^ 52 - 1 \<and> unat y = 2 ^ 52 - 1 \<and> unat z = 2 ^ 52 - 1"
proof -
  have M: "(0xFFFFFFFFFFFFF :: u64) = mask 52" by (simp add: mask_eq_exp_minus_1)
  have mx: "\<And>w :: u64. unat w < 2 ^ 52 \<Longrightarrow> w AND mask 52 = w"
  proof -
    fix w :: u64 assume "unat w < 2 ^ 52"
    then have "w < 2 ^ 52" by (simp add: word_less_nat_alt)
    then show "w AND mask 52 = w" by (rule less_mask_eq)
  qed
  have um: "\<And>w :: u64. w = mask 52 \<longleftrightarrow> unat w = 2 ^ 52 - 1"
  proof -
    fix w :: u64
    have "unat (0xFFFFFFFFFFFFF :: u64) = 2 ^ 52 - 1" by simp
    then have "unat (mask 52 :: u64) = 2 ^ 52 - 1" by (simp only: M)
    then show "w = mask 52 \<longleftrightarrow> unat w = 2 ^ 52 - 1"
      by (metis word_unat_eq_iff)
  qed
  have "(z AND y AND x) = mask 52 \<longleftrightarrow> x = mask 52 \<and> y = mask 52 \<and> z = mask 52"
  proof
    assume h: "(z AND y AND x) = mask 52"
    have "x = x AND mask 52" using mx[OF assms(1)] by simp
    also have "\<dots> = x AND (z AND y AND x)" using h by simp
    also have "\<dots> = z AND y AND x" by (simp add: ac_simps)
    finally have 1: "x = mask 52" using h by simp
    have "y = y AND mask 52" using mx[OF assms(2)] by simp
    also have "\<dots> = y AND (z AND y AND x)" using h by simp
    also have "\<dots> = z AND y AND x" by (simp add: ac_simps)
    finally have 2: "y = mask 52" using h by simp
    have "z = z AND mask 52" using mx[OF assms(3)] by simp
    also have "\<dots> = z AND (z AND y AND x)" using h by simp
    also have "\<dots> = z AND y AND x" by (simp add: ac_simps)
    finally have 3: "z = mask 52" using h by simp
    show "x = mask 52 \<and> y = mask 52 \<and> z = mask 52" using 1 2 3 by simp
  next
    assume "x = mask 52 \<and> y = mask 52 \<and> z = mask 52"
    then show "(z AND y AND x) = mask 52" by simp
  qed
  then show ?thesis unfolding M um .
qed

lemma fe_ge_p_iff:
  fixes l0 l1 l2 l3 l4 :: nat
  assumes "l0 < 2 ^ 52" "l1 < 2 ^ 52" "l2 < 2 ^ 52" "l3 < 2 ^ 52" "l4 < 2 ^ 48"
  shows "secp256k1_p \<le> l0 + 2 ^ 52 * l1 + 2 ^ 104 * l2 + 2 ^ 156 * l3 + 2 ^ 208 * l4 \<longleftrightarrow>
         l4 = 2 ^ 48 - 1 \<and> l3 = 2 ^ 52 - 1 \<and> l2 = 2 ^ 52 - 1 \<and> l1 = 2 ^ 52 - 1 \<and> 0xFFFFEFFFFFC2F \<le> l0"
  using assms unfolding secp256k1_p_def by simp linarith

lemma fe_set_b32_limit_correct:
  assumes "length a = 32"
  shows "snd (secp256k1_fe_set_b32_limit a) = of_bool (be_val a < secp256k1_p)"
proof -
  let ?r = "secp256k1_fe_set_b32_mod a"
  note b = fe_set_b32_mod_bounds[of a]
  have f4: "fn4 ?r = 0x0FFFFFFFFFFFF \<longleftrightarrow> unat (fn4 ?r) = 2 ^ 48 - 1"
  proof -
    have "unat (0x0FFFFFFFFFFFF :: u64) = 2 ^ 48 - 1" by simp
    then show ?thesis by (metis word_unat_eq_iff)
  qed
  have f0: "fn0 ?r \<ge> 0xFFFFEFFFFFC2F \<longleftrightarrow> 0xFFFFEFFFFFC2F \<le> unat (fn0 ?r)"
    by (simp add: word_le_nat_alt)
  have "secp256k1_p \<le> fe_val ?r \<longleftrightarrow>
        fn4 ?r = 0x0FFFFFFFFFFFF \<and> (fn3 ?r AND fn2 ?r AND fn1 ?r) = 0xFFFFFFFFFFFFF \<and> fn0 ?r \<ge> 0xFFFFEFFFFFC2F"
    unfolding fe_val_def fe_ge_p_iff[OF b] and3_full[OF b(2) b(3) b(4)] f4 f0 by auto
  then have "secp256k1_p \<le> be_val a \<longleftrightarrow>
        fn4 ?r = 0x0FFFFFFFFFFFF \<and> (fn3 ?r AND fn2 ?r AND fn1 ?r) = 0xFFFFFFFFFFFFF \<and> fn0 ?r \<ge> 0xFFFFEFFFFFC2F"
    by (simp only: fe_val_set_b32_mod[OF assms])
  then show ?thesis
    unfolding secp256k1_fe_set_b32_limit_def Let_def
    by (auto simp add: not_le)
qed

lemma scalar_set_b32_overflow:
  assumes "length b = 32"
  shows "snd (secp256k1_scalar_set_b32 b) = of_bool (secp256k1_n \<le> be_val b)"
proof -
  have r: "\<And>r ov. snd (secp256k1_scalar_reduce r ov) = ov"
    by (simp add: secp256k1_scalar_reduce_def Let_def)
  show ?thesis
    unfolding secp256k1_scalar_set_b32_def Let_def r check_overflow_correct scalar_val_read[OF assms] ..
qed

section \<open>Scalar multiplication modulo the curve order\<close>

subsection \<open>The accumulator macros\<close>




















subsection \<open>The 512-bit product\<close>



subsection \<open>Reduction modulo the curve order\<close>

























section \<open>Claims\<close>

subsection \<open>C8: parsing a secret key\<close>

text \<open>
  Claim C8.  For every 32-byte input \<open>b\<close>, \<open>secp256k1_scalar_set_b32_seckey\<close> returns
  success (1) if and only if the big-endian integer value of \<open>b\<close> is strictly less than the
  curve order \<open>n\<close> and is nonzero; otherwise it returns 0.
\<close>

theorem scalar_set_b32_seckey_success_iff:
  assumes "length b = 32"
  shows "snd (secp256k1_scalar_set_b32_seckey b) = of_bool (be_val b < secp256k1_n \<and> be_val b \<noteq> 0)"
proof -
  let ?r = "\<lparr>sd0 = secp256k1_read_be64 b 24, sd1 = secp256k1_read_be64 b 16,
                sd2 = secp256k1_read_be64 b 8, sd3 = secp256k1_read_be64 b 0\<rparr>"
  have v: "scalar_val ?r = be_val b" using assms by (rule scalar_val_read)
  show ?thesis
  proof (cases "secp256k1_n \<le> be_val b")
    case True
    then have "secp256k1_scalar_check_overflow ?r = 1"
      by (simp add: check_overflow_correct v)
    then have "snd (secp256k1_scalar_set_b32 b) = 1"
      by (simp add: secp256k1_scalar_set_b32_def Let_def secp256k1_scalar_reduce_def)
    then show ?thesis using True
      by (simp add: secp256k1_scalar_set_b32_seckey_def Let_def)
  next
    case False
    then have "secp256k1_scalar_check_overflow ?r = 0"
      by (simp add: check_overflow_correct v)
    then have "secp256k1_scalar_set_b32 b = (?r, 0)"
      by (simp add: secp256k1_scalar_set_b32_def Let_def scalar_reduce_0)
    then show ?thesis using False
      by (simp add: secp256k1_scalar_set_b32_seckey_def Let_def scalar_is_zero_correct v)
  qed
qed

theorem scalar_set_b32_seckey_success_iff_witness:
  "length (replicate 31 0 @ [1 :: u8]) = 32 \<and>
   snd (secp256k1_scalar_set_b32_seckey (replicate 31 0 @ [1])) =
     of_bool (be_val (replicate 31 0 @ [1]) < secp256k1_n \<and> be_val (replicate 31 0 @ [1]) \<noteq> 0)"
proof -
  have h: "length (replicate 31 0 @ [1 :: u8]) = 32" by simp
  show ?thesis using h scalar_set_b32_seckey_success_iff [OF h] by blast
qed

subsection \<open>C2: tagged-hash midstates\<close>

text \<open>
  Claim C2, first part.  For each of the three tags "BIP0340/aux", "BIP0340/nonce" and
  "BIP0340/challenge", the precomputed midstate fastpath (eight fixed state words, byte
  counter 64) yields the same SHA-256 state words and byte counter as the generic
  \<open>initialize_tagged\<close> construction SHA-256(SHA-256(tag) || SHA-256(tag)) on that tag.
  As amended, the "BIP0340/aux" midstate is
  24DD3219 4EBA7E70 CA0FABB9 0FA3166D 3AFBE4B1 4C44DF97 4AAC2739 249E850A, and
  46615B35 F4BFBFF7 9F8DC671 83627AB3 60217180 57358661 21A29E54 68B07B4C is the midstate of
  "BIP0340/nonce".
\<close>

theorem tagged_midstate_fastpath_eq_generic:
  "sha_s (secp256k1_nonce_function_bip340_sha256_tagged_aux sha256_local) =
     sha_s (secp256k1_sha256_initialize_tagged sha256_local bip340_tag_aux) \<and>
   sha_bytes (secp256k1_nonce_function_bip340_sha256_tagged_aux sha256_local) =
     sha_bytes (secp256k1_sha256_initialize_tagged sha256_local bip340_tag_aux) \<and>
   sha_s (secp256k1_nonce_function_bip340_sha256_tagged sha256_local) =
     sha_s (secp256k1_sha256_initialize_tagged sha256_local bip340_algo) \<and>
   sha_bytes (secp256k1_nonce_function_bip340_sha256_tagged sha256_local) =
     sha_bytes (secp256k1_sha256_initialize_tagged sha256_local bip340_algo) \<and>
   sha_s (secp256k1_schnorrsig_sha256_tagged sha256_local) =
     sha_s (secp256k1_sha256_initialize_tagged sha256_local bip340_tag_challenge) \<and>
   sha_bytes (secp256k1_schnorrsig_sha256_tagged sha256_local) =
     sha_bytes (secp256k1_sha256_initialize_tagged sha256_local bip340_tag_challenge) \<and>
   sha_bytes (secp256k1_sha256_initialize_tagged sha256_local bip340_tag_aux) = 64 \<and>
   sha_s (secp256k1_sha256_initialize_tagged sha256_local bip340_tag_aux) =
     [0x24DD3219, 0x4EBA7E70, 0xCA0FABB9, 0x0FA3166D, 0x3AFBE4B1, 0x4C44DF97, 0x4AAC2739, 0x249E850A] \<and>
   sha_s (secp256k1_sha256_initialize_tagged sha256_local bip340_algo) =
     [0x46615B35, 0xF4BFBFF7, 0x9F8DC671, 0x83627AB3, 0x60217180, 0x57358661, 0x21A29E54, 0x68B07B4C]"
  unfolding initialize_tagged_aux initialize_tagged_nonce initialize_tagged_challenge
  by (simp add: secp256k1_nonce_function_bip340_sha256_tagged_aux_def
      secp256k1_nonce_function_bip340_sha256_tagged_def secp256k1_schnorrsig_sha256_tagged_def
      secp256k1_sha256_initialize_def)

text \<open>
  Claim C2 as stated also says that the "BIP0340/aux" midstate equals 46615B35 F4BFBFF7
  9F8DC671 83627AB3 60217180 57358661 21A29E54 68B07B4C.  Neither the fastpath nor the generic
  construction gives these words for that tag.
\<close>

theorem tagged_midstate_aux_counterexample:
  "sha_s (secp256k1_nonce_function_bip340_sha256_tagged_aux sha256_local) \<noteq>
     [0x46615B35, 0xF4BFBFF7, 0x9F8DC671, 0x83627AB3, 0x60217180, 0x57358661, 0x21A29E54, 0x68B07B4C] \<and>
   sha_s (secp256k1_sha256_initialize_tagged sha256_local bip340_tag_aux) \<noteq>
     [0x46615B35, 0xF4BFBFF7, 0x9F8DC671, 0x83627AB3, 0x60217180, 0x57358661, 0x21A29E54, 0x68B07B4C]"
  unfolding initialize_tagged_aux
  by (simp add: secp256k1_nonce_function_bip340_sha256_tagged_aux_def secp256k1_sha256_initialize_def)

subsection \<open>C3: the zero mask of the nonce function\<close>

lemma map2_xor_commute: "map2 (XOR) xs ys = map2 (XOR) ys (xs :: u8 list)"
proof (induction xs arbitrary: ys)
  case Nil show ?case by simp
next
  case (Cons x xs)
  show ?case by (cases ys) (simp_all add: Cons.IH xor.commute)
qed

text \<open>
  Claim C3, as amended.  When the nonce function is called with no auxiliary randomness
  (\<open>data\<close> null), the secret key is masked by XOR with the hard-coded constant
  \<open>ZERO_MASK\<close> = 54 F1 69 CF C9 E2 E5 72 74 80 44 1F 90 BA 25 C4 88 F4 61 C7 0B 5E A5 DC AA F7 AF
  69 27 0A A5 14; this constant equals TaggedHash("BIP0340/aux", 32 zero bytes), so the call
  gives the same result as the call with 32 zero bytes of auxiliary randomness.
\<close>

theorem nonce_zero_mask:
  "ZERO_MASK = [0x54, 0xF1, 0x69, 0xCF, 0xC9, 0xE2, 0xE5, 0x72, 0x74, 0x80, 0x44, 0x1F, 0x90, 0xBA, 0x25, 0xC4,
                0x88, 0xF4, 0x61, 0xC7, 0x0B, 0x5E, 0xA5, 0xDC, 0xAA, 0xF7, 0xAF, 0x69, 0x27, 0x0A, 0xA5, 0x14] \<and>
   snd (secp256k1_sha256_finalize (secp256k1_sha256_write
     (secp256k1_sha256_initialize_tagged sha256_local bip340_tag_aux) (replicate 32 0))) = ZERO_MASK \<and>
   nonce_function_bip340 nonce32 msg key32 xonly_pk32 (Some algo) None =
     (1, snd (secp256k1_sha256_finalize
        (secp256k1_sha256_write (secp256k1_sha256_write (secp256k1_sha256_write
           (if length algo = length bip340_algo \<and> secp256k1_memcmp_var algo bip340_algo = 0
            then secp256k1_nonce_function_bip340_sha256_tagged sha256_local
            else secp256k1_sha256_initialize_tagged sha256_local algo)
           (map2 (XOR) (take 32 key32) ZERO_MASK)) (take 32 xonly_pk32)) msg))) \<and>
   nonce_function_bip340 nonce32 msg key32 xonly_pk32 (Some algo) None =
     nonce_function_bip340 nonce32 msg key32 xonly_pk32 (Some algo) (Some (replicate 32 0))"
proof -
  have z: "take 32 (replicate 32 (0::u8)) = replicate 32 0" by simp
  have 1: "ZERO_MASK = [0x54, 0xF1, 0x69, 0xCF, 0xC9, 0xE2, 0xE5, 0x72, 0x74, 0x80, 0x44, 0x1F, 0x90, 0xBA, 0x25, 0xC4,
                0x88, 0xF4, 0x61, 0xC7, 0x0B, 0x5E, 0xA5, 0xDC, 0xAA, 0xF7, 0xAF, 0x69, 0x27, 0x0A, 0xA5, 0x14]"
    by (simp add: ZERO_MASK_def)
  have 3: "nonce_function_bip340 nonce32 msg key32 xonly_pk32 (Some algo) None =
     (1, snd (secp256k1_sha256_finalize
        (secp256k1_sha256_write (secp256k1_sha256_write (secp256k1_sha256_write
           (if length algo = length bip340_algo \<and> secp256k1_memcmp_var algo bip340_algo = 0
            then secp256k1_nonce_function_bip340_sha256_tagged sha256_local
            else secp256k1_sha256_initialize_tagged sha256_local algo)
           (map2 (XOR) (take 32 key32) ZERO_MASK)) (take 32 xonly_pk32)) msg)))"
    by (simp only: nonce_function_bip340_def option.case Let_def)
  have 4: "nonce_function_bip340 nonce32 msg key32 xonly_pk32 (Some algo) None =
     nonce_function_bip340 nonce32 msg key32 xonly_pk32 (Some algo) (Some (replicate 32 0))"
    by (simp only: nonce_function_bip340_def option.case Let_def z tagged_hash_aux_zero_fast
        map2_xor_commute [of ZERO_MASK])
  show ?thesis using 1 tagged_hash_aux_zero_generic 3 4 by blast
qed

text \<open>
  Claim C3 as stated gives the constant with byte 11 equal to 0x41; the constant in the code,
  and the tagged hash, have 0x1F there.
\<close>

theorem nonce_zero_mask_counterexample:
  "ZERO_MASK \<noteq> [0x54, 0xF1, 0x69, 0xCF, 0xC9, 0xE2, 0xE5, 0x72, 0x74, 0x80, 0x44, 0x41, 0x90, 0xBA, 0x25, 0xC4,
                0x88, 0xF4, 0x61, 0xC7, 0x0B, 0x5E, 0xA5, 0xDC, 0xAA, 0xF7, 0xAF, 0x69, 0x27, 0x0A, 0xA5, 0x14] \<and>
   snd (secp256k1_sha256_finalize (secp256k1_sha256_write
     (secp256k1_sha256_initialize_tagged sha256_local bip340_tag_aux) (replicate 32 0))) \<noteq>
     [0x54, 0xF1, 0x69, 0xCF, 0xC9, 0xE2, 0xE5, 0x72, 0x74, 0x80, 0x44, 0x41, 0x90, 0xBA, 0x25, 0xC4,
      0x88, 0xF4, 0x61, 0xC7, 0x0B, 0x5E, 0xA5, 0xDC, 0xAA, 0xF7, 0xAF, 0x69, 0x27, 0x0A, 0xA5, 0x14]"
  unfolding tagged_hash_aux_zero_generic
  by (simp add: ZERO_MASK_def)

subsection \<open>C7: the signature buffer when signing fails\<close>




subsection \<open>C9: a null message pointer\<close>

text \<open>
  Claim C9, as amended.  When sign or verify is called with a null message pointer and a
  nonzero message length, the call is rejected and reported as boolean false.  A null
  message pointer together with message length zero passes the argument check
  \<open>msg != NULL || msglen == 0\<close>: the call takes the same course as the call with an empty
  message at a non-null pointer.
\<close>

theorem null_message_pointer:
  "(msglen \<noteq> 0 \<longrightarrow>
      secp256k1_schnorrsig_sign_internal ecmult_gen ctx sig64 None msglen keypair noncefp ndata
        = Inr (0, sig64) \<and>
      secp256k1_schnorrsig_verify ecmult vsig64 None msglen pubkey = Inr 0) \<and>
   secp256k1_schnorrsig_sign_internal ecmult_gen ctx sig64 None 0 keypair noncefp ndata =
     secp256k1_schnorrsig_sign_internal ecmult_gen ctx sig64 (Some m) 0 keypair noncefp ndata \<and>
   secp256k1_schnorrsig_verify ecmult vsig64 None 0 pubkey =
     secp256k1_schnorrsig_verify ecmult vsig64 (Some m) 0 pubkey"
  using sign_internal_arg_check [of ctx sig64 None msglen keypair ecmult_gen noncefp ndata]
    verify_arg_check [of vsig64 None msglen pubkey ecmult]
    sign_null_msg [of ecmult_gen ctx sig64 keypair noncefp ndata m]
    verify_null_msg [of ecmult vsig64 pubkey m]
  by blast

theorem null_message_pointer_witness:
  "(5::nat) \<noteq> 0 \<and>
   secp256k1_schnorrsig_sign_internal (ecmult_gen_const secp256k1_gej_set_infinity)
     \<lparr>ecmult_gen_built = 1\<rparr> (Some (replicate 64 0xAA)) None 5 (Some (replicate 96 0)) None None
     = Inr (0, Some (replicate 64 0xAA)) \<and>
   secp256k1_schnorrsig_verify (ecmult_const secp256k1_gej_set_infinity)
     (Some (replicate 64 0)) None 5 (Some (replicate 64 0)) = Inr 0"
proof -
  have h: "(5::nat) \<noteq> 0" by simp
  show ?thesis
    using h null_message_pointer [of 5 "ecmult_gen_const secp256k1_gej_set_infinity"
      "\<lparr>ecmult_gen_built = 1\<rparr>" "Some (replicate 64 0xAA)" "Some (replicate 96 0)" None None
      "ecmult_const secp256k1_gej_set_infinity" "Some (replicate 64 0)" "Some (replicate 64 0)" "[]"]
    by blast
qed

text \<open>
  Claim C9 as stated says that a call with a null message pointer and length zero is
  rejected by input validation and reported as false.  Here sign and verify are called
  with a null message pointer and length zero.  Neither call is answered with false: the
  argument checks pass (in verify also the range checks of the signature, whose halves are
  both the integer 1), and each call runs on into the load of the public key, where the
  copy of 64 bytes into the 32-byte storage struct ends it.
\<close>

theorem null_message_pointer_counterexample:
  "secp256k1_schnorrsig_sign_internal (ecmult_gen_const secp256k1_gej_set_infinity)
     \<lparr>ecmult_gen_built = 1\<rparr> (Some (replicate 64 0xAA)) None 0 (Some (replicate 96 0)) None None
     = Inl Out_of_bounds_write \<and>
   secp256k1_schnorrsig_verify (ecmult_const secp256k1_gej_set_infinity)
     (Some (replicate 31 0 @ [1] @ replicate 31 0 @ [1])) None 0 (Some (1 # replicate 63 0))
     = Inl Out_of_bounds_write"
proof -
  let ?sig = "replicate 31 0 @ [1] @ replicate 31 0 @ [1 :: u8]"
  let ?b = "replicate 31 0 @ [1 :: u8]"
  have t1: "take 32 ?sig = ?b" by simp
  have t2: "take 32 (drop 32 ?sig) = ?b" by simp
  have l: "length ?b = 32" by simp
  have v: "be_val ?b = 1" by (simp add: be_val_def replicate_numeral_eval)
  have rx: "snd (secp256k1_fe_set_b32_limit ?b) \<noteq> 0"
    unfolding fe_set_b32_limit_correct [OF l] v by (simp add: secp256k1_p_def)
  have s: "snd (secp256k1_scalar_set_b32 ?b) = 0"
    unfolding scalar_set_b32_overflow [OF l] v by (simp add: secp256k1_n_def)
  have 1: "secp256k1_schnorrsig_sign_internal (ecmult_gen_const secp256k1_gej_set_infinity)
     \<lparr>ecmult_gen_built = 1\<rparr> (Some (replicate 64 0xAA)) None 0 (Some (replicate 96 0)) None None
     = Inl Out_of_bounds_write"
    by (rule sign_internal_fault) simp_all
  have 2: "secp256k1_schnorrsig_verify (ecmult_const secp256k1_gej_set_infinity)
     (Some ?sig) None 0 (Some (1 # replicate 63 0)) = Inl Out_of_bounds_write"
    by (rule verify_fault) (simp_all only: option.sel t1 t2 rx s option.distinct not_False_eq_True simp_thms)
  show ?thesis using 1 2 by blast
qed

subsection \<open>C10: the outputs of a failed key-pair load\<close>

text \<open>
  Claim C10.  The claim says that a failing \<open>secp256k1_keypair_load\<close> returns 0 with the
  public-key output set to the generator \<open>G\<close> and the secret-scalar output set to 1.  On the
  key pair of 96 zero bytes the call does not return: its public-key load copies 64 bytes
  into the 32-byte storage struct.  Whatever that load leaves in \<open>pk\<close> and returns, the rest
  of the function fails on the secret key 0, returns 0, sets the secret-scalar output to the
  scalar 1 and sets the public-key output to the constant \<open>secp256k1_ge_const_g\<close>; and the
  coordinates of this constant, which the macro \<open>SECP256K1_GE_CONST\<close> fills with ten raw
  64-bit words, are not those of \<open>G\<close>.
\<close>

theorem keypair_load_failure_not_generator:
  "secp256k1_keypair_load (Some secp256k1_scalar_zero) (replicate 96 0) = Inl Out_of_bounds_write \<and>
   secp256k1_keypair_load_rest (Some secp256k1_scalar_zero) (replicate 96 0) pl
     = (0, Some secp256k1_scalar_one, secp256k1_ge_const_g) \<and>
   ge_x secp256k1_ge_const_g =
     \<lparr>fn0 = 0x79be667ef9dcbbac, fn1 = 0x55a06295ce870b07, fn2 = 0x029bfcdb2dce28d9,
      fn3 = 0x59f2815b16f81798, fn4 = 0x483ada7726a3c465\<rparr> \<and>
   ge_y secp256k1_ge_const_g =
     \<lparr>fn0 = 0x5da4fbfc0e1108a8, fn1 = 0xfd17b448a6855419, fn2 = 0x9c47d08ffb10d4b8,
      fn3 = 0, fn4 = 0\<rparr> \<and>
   fe_val (ge_x secp256k1_ge_const_g) mod secp256k1_p \<noteq> secp256k1_Gx \<and>
   fe_val (ge_y secp256k1_ge_const_g) mod secp256k1_p \<noteq> secp256k1_Gy"
proof -
  have x: "ge_x secp256k1_ge_const_g =
     \<lparr>fn0 = 0x79be667ef9dcbbac, fn1 = 0x55a06295ce870b07, fn2 = 0x029bfcdb2dce28d9,
      fn3 = 0x59f2815b16f81798, fn4 = 0x483ada7726a3c465\<rparr>"
    by (simp add: secp256k1_ge_const_g_def SECP256K1_GE_CONST_def word_eval)
  have y: "ge_y secp256k1_ge_const_g =
     \<lparr>fn0 = 0x5da4fbfc0e1108a8, fn1 = 0xfd17b448a6855419, fn2 = 0x9c47d08ffb10d4b8,
      fn3 = 0, fn4 = 0\<rparr>"
    by (simp add: secp256k1_ge_const_g_def SECP256K1_GE_CONST_def word_eval)
  have vx: "fe_val (ge_x secp256k1_ge_const_g) mod secp256k1_p \<noteq> secp256k1_Gx"
    unfolding x by (simp add: fe_val_def secp256k1_p_def secp256k1_Gx_def)
  have vy: "fe_val (ge_y secp256k1_ge_const_g) mod secp256k1_p \<noteq> secp256k1_Gy"
    unfolding y by (simp add: fe_val_def secp256k1_p_def secp256k1_Gy_def)
  show ?thesis
    using keypair_load_fault [of "Some secp256k1_scalar_zero" "replicate 96 0"]
      keypair_load_rest_zero [of secp256k1_scalar_zero pl] x y vx vy by blast
qed
subsection \<open>C6: verification rejects out-of-range signature halves\<close>

text \<open>
  Claim C6.  For every 64-byte signature, \<open>secp256k1_schnorrsig_verify\<close> returns false
  whenever the big-endian integer in \<open>sig[0..32]\<close> is at least the field prime \<open>p\<close>, or the
  big-endian integer in \<open>sig[32..64]\<close> is at least the curve order \<open>n\<close>.  The result is
  reached before any elliptic-curve computation: it holds whatever \<open>secp256k1_ecmult\<close>
  computes, and whatever the public key bytes are.
\<close>

theorem verify_rejects_out_of_range:
  assumes "length sig64 = 64"
    and "secp256k1_p \<le> be_val (take 32 sig64) \<or> secp256k1_n \<le> be_val (take 32 (drop 32 sig64))"
  shows "secp256k1_schnorrsig_verify ecmult (Some sig64) msg msglen pubkey = Inr 0"
proof -
  have l1: "length (take 32 sig64) = 32" and l2: "length (take 32 (drop 32 sig64)) = 32"
    using assms(1) by simp_all
  have "snd (secp256k1_fe_set_b32_limit (take 32 sig64)) = 0 \<or>
        snd (secp256k1_scalar_set_b32 (take 32 (drop 32 sig64))) \<noteq> 0"
    using assms(2) unfolding fe_set_b32_limit_correct[OF l1] scalar_set_b32_overflow[OF l2]
    by auto
  then show ?thesis
    unfolding secp256k1_schnorrsig_verify_def Let_def option.sel
    by auto
qed

theorem verify_rejects_out_of_range_witness:
  "length (replicate 64 (0xFF :: u8)) = 64 \<and>
   secp256k1_p \<le> be_val (take 32 (replicate 64 (0xFF :: u8))) \<and>
   secp256k1_schnorrsig_verify (ecmult_const secp256k1_gej_set_infinity)
     (Some (replicate 64 0xFF)) (Some []) 0 (Some (replicate 64 0)) = Inr 0"
proof -
  have h1: "length (replicate 64 (0xFF :: u8)) = 64" by simp
  have h2: "secp256k1_p \<le> be_val (take 32 (replicate 64 (0xFF :: u8)))"
    by (simp add: replicate_numeral_eval be_val_def secp256k1_p_def)
  show ?thesis
    using h1 h2 verify_rejects_out_of_range [of "replicate 64 0xFF"
      "ecmult_const secp256k1_gej_set_infinity" "Some []" 0 "Some (replicate 64 0)"]
    by blast
qed
subsection \<open>C1: scalar multiplication\<close>


end
